theory Spec2Isabelle
  imports Main "HOL-Library.AList" "HOL-Library.Sublist"
begin

section \<open>The environment of the installer\<close>

text \<open>
  The adapters of \<^verbatim>\<open>src/clients.ts\<close> read \<^verbatim>\<open>process.platform\<close>,
  \<^verbatim>\<open>process.env\<close> and \<^verbatim>\<open>os.homedir()\<close>, look at the file system and run
  external programs. All of this is one explicit state. A file-system call that fails
  (permissions, a full disk) throws in Node; \<open>fs_fault\<close> says which calls throw and with
  which message. An external program is a function of the invocations made so far
  (\<open>calls\<close>) and of the command line: it throws (\<open>Inl\<close> the message of the error) or
  returns its standard output (\<open>Inr\<close>). \<open>cachedBinary\<close> is the private field of the
  \<^verbatim>\<open>ClaudeCodeClient\<close> instance at hand. \<open>files\<close> gives the text of every regular
  file, a value of the type \<open>config_text\<close> below (the bytes of an executable are a
  malformed text from which no value is recovered); \<open>dirs\<close> holds the directories.
  Debug output is left out.
\<close>

datatype json =
    JNull
  | JBool bool
  | JNum int
  | JStr string
  | JArr "json list"
  | JObj "(string \<times> json) list"

text \<open>
  The text of a config file, as far as the tolerant parser of the \<^verbatim>\<open>jsonc-parser\<close>
  package tells texts apart: a text without any value (the empty string that
  \<^verbatim>\<open>addServer\<close> starts from when the file is absent, or white space and comments
  only), a malformed text, and a well-formed text, identified with the value it denotes.
  The parser is fault-tolerant: from a malformed text it recovers what it can, and that
  value (\<open>None\<close> when there is none) is the parameter of \<open>Malformed\<close>. Comments and
  layout are not part of the model, and a value binds each key once: a text that repeats
  a key of an object is outside it.
\<close>

datatype config_text = Empty | Malformed "json option" | Doc json

datatype fs_op = Mkdir | ReadFile | WriteFile

type_synonym invocation = "string \<times> string list"

record world =
  platform :: string
  env :: "string \<rightharpoonup> string"
  homedir :: string
  files :: "string \<rightharpoonup> config_text"
  dirs :: "string set"
  fs_fault :: "fs_op \<Rightarrow> string \<Rightarrow> string option"
  proc :: "invocation list \<Rightarrow> invocation \<Rightarrow> string + string"
  calls :: "invocation list"
  cachedBinary :: "string option"

text \<open>\<^verbatim>\<open>InstallResult\<close> of \<^verbatim>\<open>src/types.ts\<close>.\<close>

record InstallResult =
  success :: bool
  error :: "string option"

definition ok :: InstallResult where
  "ok = \<lparr>success = True, error = None\<rparr>"

definition failure :: "string \<Rightarrow> InstallResult" where
  "failure msg = \<lparr>success = False, error = Some msg\<rparr>"

subsection \<open>Constants (\<^verbatim>\<open>src/constants.ts\<close>)\<close>

definition MCP_SERVER_NAME :: string where
  "MCP_SERVER_NAME = ''codealive''"

definition MCP_COMMAND :: string where
  "MCP_COMMAND = ''uvx''"

definition MCP_ARGS :: "string list" where
  "MCP_ARGS = [''codealive-mcp'']"

subsection \<open>Node primitives\<close>

text \<open>
  \<^verbatim>\<open>path.join\<close> ignores empty segments and puts the separator between the others.
  The separator is written as a slash (Node writes a backslash when it runs on Windows),
  and the normalisation of \<^verbatim>\<open>.\<close>, \<^verbatim>\<open>..\<close> and doubled separators is not modelled:
  no segment written in the source has any. \<^verbatim>\<open>path.dirname\<close> cuts the last segment; it
  answers \<^verbatim>\<open>.\<close> for a path without a separator and the root for a path directly under
  it.
\<close>

fun intercalate :: "string \<Rightarrow> string list \<Rightarrow> string" where
  "intercalate sep [] = []"
| "intercalate sep [s] = s"
| "intercalate sep (s # t # ss) = s @ sep @ intercalate sep (t # ss)"

definition path_join :: "string list \<Rightarrow> string" where
  "path_join segs = intercalate ''/'' (filter (\<lambda>s. s \<noteq> []) segs)"

definition path_dirname :: "string \<Rightarrow> string" where
  "path_dirname p =
     (if CHR ''/'' \<notin> set p then ''.''
      else if rev (drop 1 (dropWhile (\<lambda>c. c \<noteq> CHR ''/'') (rev p))) = [] then ''/''
      else rev (drop 1 (dropWhile (\<lambda>c. c \<noteq> CHR ''/'') (rev p))))"

text \<open>JavaScript's truthiness of a \<^verbatim>\<open>string | undefined\<close>, and \<^verbatim>\<open>x || ''\<close>.\<close>

definition truthy :: "string option \<Rightarrow> bool" where
  "truthy v = (case v of None \<Rightarrow> False | Some s \<Rightarrow> s \<noteq> [])"

definition or_empty :: "string option \<Rightarrow> string" where
  "or_empty v = (case v of None \<Rightarrow> [] | Some s \<Rightarrow> s)"

definition existsSync :: "world \<Rightarrow> string \<Rightarrow> bool" where
  "existsSync w p = (p \<in> dom (files w) \<or> p \<in> dirs w)"

text \<open>\<^verbatim>\<open>fs.promises.mkdir(dir, { recursive: true })\<close>: the directory and its ancestors.\<close>

definition ancestors :: "string \<Rightarrow> string list" where
  "ancestors d = map (\<lambda>i. take i d) (filter (\<lambda>i. d ! i = CHR ''/'') [1..<length d])"

definition mkdir_p :: "world \<Rightarrow> string \<Rightarrow> string + world" where
  "mkdir_p w d =
     (case fs_fault w Mkdir d of
        Some msg \<Rightarrow> Inl msg
      | None \<Rightarrow> Inr (w\<lparr>dirs := dirs w \<union> set (d # ancestors d)\<rparr>))"

definition readFile :: "world \<Rightarrow> string \<Rightarrow> string + config_text" where
  "readFile w p =
     (case fs_fault w ReadFile p of
        Some msg \<Rightarrow> Inl msg
      | None \<Rightarrow>
          (case files w p of
             None \<Rightarrow>
               Inl (if p \<in> dirs w then ''EISDIR: illegal operation on a directory''
                    else ''ENOENT: no such file or directory'')
           | Some t \<Rightarrow> Inr t))"

definition writeFile :: "world \<Rightarrow> string \<Rightarrow> config_text \<Rightarrow> string + world" where
  "writeFile w p t =
     (case fs_fault w WriteFile p of
        Some msg \<Rightarrow> Inl msg
      | None \<Rightarrow> Inr (w\<lparr>files := (files w)(p \<mapsto> t)\<rparr>))"

text \<open>
  \<^verbatim>\<open>execFileSync(file, args, { stdio: 'pipe', timeout })\<close>: the invocation is recorded,
  whether it throws or not.
\<close>

definition execFileSync :: "world \<Rightarrow> string \<Rightarrow> string list \<Rightarrow> (string + string) \<times> world" where
  "execFileSync w file args =
     (proc w (calls w) (file, args), w\<lparr>calls := calls w @ [(file, args)]\<rparr>)"

section \<open>The adapters\<close>

text \<open>
  The classes that \<^verbatim>\<open>getAllClients\<close> instantiates, in its order. The eight
  subclasses of \<^verbatim>\<open>JsonConfigClient\<close> are a type of their own; \<^verbatim>\<open>ClaudeCodeClient\<close>
  and \<^verbatim>\<open>CodexClient\<close> extend \<^verbatim>\<open>MCPClient\<close> directly and drive a command line.
\<close>

datatype json_client =
  Cursor | VSCode | Windsurf | Cline | RooCode | Zed | OpenCode | Antigravity

datatype client = ClaudeCode | Json json_client | Codex


fun getServerPropertyName :: "json_client \<Rightarrow> string" where
  "getServerPropertyName Cursor = ''mcpServers''"
| "getServerPropertyName VSCode = ''servers''"
| "getServerPropertyName Windsurf = ''mcpServers''"
| "getServerPropertyName Cline = ''mcpServers''"
| "getServerPropertyName RooCode = ''mcpServers''"
| "getServerPropertyName Zed = ''context_servers''"
| "getServerPropertyName OpenCode = ''mcp''"
| "getServerPropertyName Antigravity = ''mcpServers''"

definition cline_suffix :: string where
  "cline_suffix = path_join [''Code'', ''User'', ''globalStorage'', ''saoudrizwan.claude-dev'',
     ''settings'', ''cline_mcp_settings.json'']"

definition roo_suffix :: string where
  "roo_suffix = path_join [''Code'', ''User'', ''globalStorage'', ''rooveterinaryinc.roo-cline'',
     ''settings'', ''mcp_settings.json'']"

text \<open>\<^verbatim>\<open>getConfigPath\<close> of each subclass, branch by branch.\<close>

fun getConfigPath :: "world \<Rightarrow> json_client \<Rightarrow> string" where
  "getConfigPath w Cursor =
     (if platform w = ''win32''
      then path_join [or_empty (env w ''APPDATA''), ''Cursor'', ''mcp.json'']
      else if platform w = ''linux''
      then path_join [homedir w, ''.config'', ''cursor'', ''mcp.json'']
      else path_join [homedir w, ''.cursor'', ''mcp.json''])"
| "getConfigPath w VSCode =
     (if platform w = ''darwin''
      then path_join [homedir w, ''Library'', ''Application Support'', ''Code'', ''User'',
        ''mcp.json'']
      else if platform w = ''win32''
      then path_join [or_empty (env w ''APPDATA''), ''Code'', ''User'', ''mcp.json'']
      else path_join [homedir w, ''.config'', ''Code'', ''User'', ''mcp.json''])"
| "getConfigPath w Windsurf =
     (if platform w = ''darwin''
      then path_join [homedir w, ''.codeium'', ''windsurf'', ''mcp_config.json'']
      else if platform w = ''win32''
      then path_join [or_empty (env w ''APPDATA''), ''Codeium'', ''windsurf'',
        ''mcp_config.json'']
      else path_join [homedir w, ''.config'', ''windsurf'', ''mcp.json''])"
| "getConfigPath w Cline =
     (if platform w = ''darwin''
      then path_join [homedir w, ''Library'', ''Application Support'', cline_suffix]
      else if platform w = ''win32''
      then path_join [or_empty (env w ''APPDATA''), cline_suffix]
      else path_join [homedir w, ''.config'', cline_suffix])"
| "getConfigPath w RooCode =
     (if platform w = ''darwin''
      then path_join [homedir w, ''Library'', ''Application Support'', roo_suffix]
      else if platform w = ''win32''
      then path_join [or_empty (env w ''APPDATA''), roo_suffix]
      else path_join [homedir w, ''.config'', roo_suffix])"
| "getConfigPath w Zed =
     (if truthy (env w ''XDG_CONFIG_HOME'')
      then path_join [or_empty (env w ''XDG_CONFIG_HOME''), ''zed'', ''settings.json'']
      else path_join [homedir w, ''.config'', ''zed'', ''settings.json''])"
| "getConfigPath w OpenCode =
     (if platform w = ''win32''
      then path_join [or_empty (env w ''APPDATA''), ''opencode'', ''opencode.json'']
      else path_join [homedir w, ''.config'', ''opencode'', ''opencode.json''])"
| "getConfigPath w Antigravity =
     path_join [homedir w, ''.gemini'', ''antigravity'', ''mcp_config.json'']"

subsection \<open>The server entry\<close>

text \<open>
  \<^verbatim>\<open>buildEnv\<close>: a record of strings, in insertion order. The override is added when
  \<^verbatim>\<open>process.env.CODEALIVE_BASE_URL\<close> is truthy.
\<close>

definition buildEnv :: "world \<Rightarrow> string \<Rightarrow> (string \<times> string) list" where
  "buildEnv w apiKey =
     [(''CODEALIVE_API_KEY'', apiKey)] @
     (if truthy (env w ''CODEALIVE_BASE_URL'')
      then [(''CODEALIVE_BASE_URL'', or_empty (env w ''CODEALIVE_BASE_URL''))]
      else [])"

definition record_json :: "(string \<times> string) list \<Rightarrow> json" where
  "record_json kvs = JObj (map (\<lambda>(k, v). (k, JStr v)) kvs)"

fun getServerConfig :: "world \<Rightarrow> json_client \<Rightarrow> string \<Rightarrow> json" where
  "getServerConfig w VSCode apiKey =
     JObj [(''type'', JStr ''stdio''), (''command'', JStr MCP_COMMAND),
           (''args'', JArr (map JStr MCP_ARGS)), (''env'', record_json (buildEnv w apiKey))]"
| "getServerConfig w Cline apiKey =
     JObj [(''command'', JStr MCP_COMMAND), (''args'', JArr (map JStr MCP_ARGS)),
           (''env'', record_json (buildEnv w apiKey)), (''disabled'', JBool False)]"
| "getServerConfig w RooCode apiKey =
     JObj [(''command'', JStr MCP_COMMAND), (''args'', JArr (map JStr MCP_ARGS)),
           (''env'', record_json (buildEnv w apiKey)), (''disabled'', JBool False)]"
| "getServerConfig w Zed apiKey =
     JObj [(''source'', JStr ''custom''), (''command'', JStr MCP_COMMAND),
           (''args'', JArr (map JStr MCP_ARGS)), (''env'', record_json (buildEnv w apiKey))]"
| "getServerConfig w OpenCode apiKey =
     JObj [(''type'', JStr ''local''), (''command'', JArr (map JStr (MCP_COMMAND # MCP_ARGS))),
           (''enabled'', JBool True), (''environment'', record_json (buildEnv w apiKey))]"
| "getServerConfig w c apiKey =
     JObj [(''command'', JStr MCP_COMMAND), (''args'', JArr (map JStr MCP_ARGS)),
           (''env'', record_json (buildEnv w apiKey))]"

subsection \<open>The config editor\<close>

text \<open>
  The adapters edit a config file through \<^verbatim>\<open>jsonc.parse\<close>, \<^verbatim>\<open>jsonc.modify\<close> and
  \<^verbatim>\<open>jsonc.applyEdits\<close> of the \<^verbatim>\<open>jsonc-parser\<close> package, whose code is not part of
  the sources. The definitions below stand for them. The message texts are
  placeholders.
\<close>

text \<open>
  \<^verbatim>\<open>jsonc.parse(content)\<close>, as \<^verbatim>\<open>isServerInstalled\<close> calls it: with no array to
  collect the errors in, and with no look at any error. The parser of the package is
  fault-tolerant: it never throws, and on a malformed text it returns the value it could
  recover, which the text carries here as a parameter. A text without a value gives
  \<^verbatim>\<open>undefined\<close>, which is \<open>None\<close>.
\<close>

definition jsonc_parse :: "config_text \<Rightarrow> json option" where
  "jsonc_parse t =
     (case t of
        Empty \<Rightarrow> None
      | Malformed recovered \<Rightarrow> recovered
      | Doc v \<Rightarrow> Some v)"

text \<open>
  Modelled from the spec: \<^verbatim>\<open>jsonc.modify\<close> with a value, followed by
  \<^verbatim>\<open>jsonc.applyEdits\<close>, missing from the sources. \<open>upsert\<close> "parses tolerant-JSON
  text, computes the edit needed to set \<open>parsed[prop][key] = value\<close> (creating \<open>prop\<close>
  if absent)"; on the empty text of an absent file it creates the whole document. Where
  the spec is silent (the root or \<open>prop\<close> holds a value that is not an object) the
  insertion has no object to go to and fails. On a malformed text the edit is the failure
  that the spec asks for: "any parse error ... is caught and surfaced as a structured
  failure result".
\<close>

fun upsert :: "config_text \<Rightarrow> string \<times> string \<Rightarrow> json \<Rightarrow> string + config_text" where
  "upsert Empty (prop, key) v = Inr (Doc (JObj [(prop, JObj [(key, v)])]))"
| "upsert (Malformed recovered) (prop, key) v = Inl ''ConfigError: parse error''"
| "upsert (Doc (JObj kvs)) (prop, key) v =
     (case map_of kvs prop of
        None \<Rightarrow> Inr (Doc (JObj (kvs @ [(prop, JObj [(key, v)])])))
      | Some (JObj inner) \<Rightarrow>
          Inr (Doc (JObj (AList.update prop (JObj (AList.update key v inner)) kvs)))
      | Some other \<Rightarrow> Inl ''ConfigError: cannot add a property to a value that is no object'')"
| "upsert (Doc other) (prop, key) v =
     Inl ''ConfigError: cannot add a property to a value that is no object''"

text \<open>
  Modelled from the spec: \<^verbatim>\<open>jsonc.modify\<close> with \<^verbatim>\<open>undefined\<close>, followed by
  \<^verbatim>\<open>jsonc.applyEdits\<close>, missing from the sources. The spec's \<open>remove\<close> is the
  "symmetric deletion of the key; if the key or its parent object does not exist,
  returns the input unchanged (idempotent)".
\<close>

fun remove_edit :: "config_text \<Rightarrow> string \<times> string \<Rightarrow> string + config_text" where
  "remove_edit (Malformed recovered) (prop, key) = Inl ''ConfigError: parse error''"
| "remove_edit (Doc (JObj kvs)) (prop, key) =
     (case map_of kvs prop of
        Some (JObj inner) \<Rightarrow>
          Inr (Doc (JObj (AList.update prop (JObj (AList.delete key inner)) kvs)))
      | other \<Rightarrow> Inr (Doc (JObj kvs)))"
| "remove_edit t (prop, key) = Inr t"

text \<open>
  \<^verbatim>\<open>jsonc.applyEdits(content, jsonc.modify(content, [prop, key], value, options))\<close>,
  where the value \<^verbatim>\<open>undefined\<close> (\<open>None\<close>) asks for the deletion.
\<close>

definition modify_applyEdits ::
  "config_text \<Rightarrow> string \<times> string \<Rightarrow> json option \<Rightarrow> string + config_text" where
  "modify_applyEdits content path value =
     (case value of Some v \<Rightarrow> upsert content path v | None \<Rightarrow> remove_edit content path)"

subsection \<open>\<^verbatim>\<open>JsonConfigClient\<close>\<close>

text \<open>
  The \<^verbatim>\<open>in\<close> operator throws a \<^verbatim>\<open>TypeError\<close> on anything but an object. On an
  array it looks for an index or a property of arrays, on an object also along the
  prototype chain; neither holds one of the five keys that the adapters ask for.
\<close>

definition js_in :: "string \<Rightarrow> json option \<Rightarrow> string + bool" where
  "js_in k v =
     (case v of
        Some (JObj kvs) \<Rightarrow> Inr (k \<in> set (map fst kvs))
      | Some (JArr xs) \<Rightarrow> Inr False
      | other \<Rightarrow> Inl ''TypeError: cannot use the in operator'')"

text \<open>\<^verbatim>\<open>config[prop]\<close> on a value that is an object or an array.\<close>

definition js_get :: "json option \<Rightarrow> string \<Rightarrow> json option" where
  "js_get v k = (case v of Some (JObj kvs) \<Rightarrow> map_of kvs k | other \<Rightarrow> None)"

definition typeof_object :: "json option \<Rightarrow> bool" where
  \<comment> \<open>\<^verbatim>\<open>typeof v === 'object'\<close>, which holds of \<^verbatim>\<open>null\<close> too\<close>
  "typeof_object v =
     (case v of
        Some JNull \<Rightarrow> True
      | Some (JArr xs) \<Rightarrow> True
      | Some (JObj kvs) \<Rightarrow> True
      | other \<Rightarrow> False)"

text \<open>
  The body of the \<^verbatim>\<open>try\<close> block of \<^verbatim>\<open>isServerInstalled\<close>, with what it throws as
  \<open>Inl\<close>; the conjunction is evaluated from the left and stops at the first false
  conjunct.
\<close>

definition isServerInstalled_try :: "world \<Rightarrow> json_client \<Rightarrow> string + bool" where
  "isServerInstalled_try w c =
     (let configPath = getConfigPath w c in
      if \<not> existsSync w configPath then Inr False
      else
        (case readFile w configPath of
           Inl e \<Rightarrow> Inl e
         | Inr content \<Rightarrow>
             (let config = jsonc_parse content;
                  prop = getServerPropertyName c
              in case js_in prop config of
                   Inl e \<Rightarrow> Inl e
                 | Inr False \<Rightarrow> Inr False
                 | Inr True \<Rightarrow>
                     if \<not> typeof_object (js_get config prop) then Inr False
                     else if js_get config prop = Some JNull then Inr False
                     else js_in MCP_SERVER_NAME (js_get config prop))))"

definition isServerInstalled_json :: "world \<Rightarrow> json_client \<Rightarrow> bool \<times> world" where
  "isServerInstalled_json w c =
     (case isServerInstalled_try w c of Inl e \<Rightarrow> (False, w) | Inr b \<Rightarrow> (b, w))"

definition isClientSupported_json :: "world \<Rightarrow> json_client \<Rightarrow> bool" where
  "isClientSupported_json w c =
     (if c = Zed
      then
        (if platform w \<noteq> ''darwin'' \<and> platform w \<noteq> ''linux'' then False
         else existsSync w (path_dirname (getConfigPath w c)))
      else
        (let dir = path_dirname (getConfigPath w c)
         in existsSync w dir \<or> existsSync w (path_dirname dir)))"

text \<open>
  \<^verbatim>\<open>addServer\<close> and \<^verbatim>\<open>removeServer\<close>: every step of the \<^verbatim>\<open>try\<close> block that throws
  goes to the \<^verbatim>\<open>catch\<close>, which returns the message; what was done before stays done.
\<close>

definition addServer_json :: "world \<Rightarrow> json_client \<Rightarrow> string \<Rightarrow> InstallResult \<times> world" where
  "addServer_json w c apiKey =
     (let configPath = getConfigPath w c in
      case mkdir_p w (path_dirname configPath) of
        Inl e \<Rightarrow> (failure e, w)
      | Inr w1 \<Rightarrow>
          (case (if existsSync w1 configPath then readFile w1 configPath else Inr Empty) of
             Inl e \<Rightarrow> (failure e, w1)
           | Inr content \<Rightarrow>
               (case modify_applyEdits content (getServerPropertyName c, MCP_SERVER_NAME)
                       (Some (getServerConfig w1 c apiKey)) of
                  Inl e \<Rightarrow> (failure e, w1)
                | Inr modified \<Rightarrow>
                    (case writeFile w1 configPath modified of
                       Inl e \<Rightarrow> (failure e, w1)
                     | Inr w2 \<Rightarrow> (ok, w2)))))"

definition removeServer_json :: "world \<Rightarrow> json_client \<Rightarrow> InstallResult \<times> world" where
  "removeServer_json w c =
     (let configPath = getConfigPath w c in
      if \<not> existsSync w configPath then (failure ''Config not found'', w)
      else
        (case readFile w configPath of
           Inl e \<Rightarrow> (failure e, w)
         | Inr content \<Rightarrow>
             (case modify_applyEdits content (getServerPropertyName c, MCP_SERVER_NAME) None of
                Inl e \<Rightarrow> (failure e, w)
              | Inr modified \<Rightarrow>
                  (case writeFile w configPath modified of
                     Inl e \<Rightarrow> (failure e, w)
                   | Inr w' \<Rightarrow> (ok, w')))))"

subsection \<open>The command-line adapters\<close>

text \<open>
  \<^verbatim>\<open>findBinary\<close>: the loop over the candidates returns at the first one that exists;
  after the loop the locating command is run and only its success is looked at.
\<close>

fun first_existing :: "world \<Rightarrow> string list \<Rightarrow> string option" where
  "first_existing w [] = None"
| "first_existing w (c # cs) = (if existsSync w c then Some c else first_existing w cs)"

definition findBinary :: "world \<Rightarrow> string \<Rightarrow> string list \<Rightarrow> string option \<times> world" where
  "findBinary w name candidates =
     (case first_existing w candidates of
        Some c \<Rightarrow> (Some c, w)
      | None \<Rightarrow>
          (let cmd = (if platform w = ''win32'' then ''where'' else ''which'')
           in case execFileSync w cmd [name] of
                (Inr out, w') \<Rightarrow> (Some name, w')
              | (Inl e, w') \<Rightarrow> (None, w')))"

definition findClaudeBinary :: "world \<Rightarrow> string option \<times> world" where
  "findClaudeBinary w =
     findBinary w ''claude''
       [path_join [homedir w, ''.claude'', ''local'', ''claude''],
        path_join [homedir w, ''.bun'', ''bin'', ''claude''],
        path_join [homedir w, ''.npm'', ''bin'', ''claude''],
        path_join [homedir w, ''.yarn'', ''bin'', ''claude''],
        ''/usr/local/bin/claude'',
        ''/opt/homebrew/bin/claude'']"

definition findCodexBinary :: "world \<Rightarrow> string option \<times> world" where
  "findCodexBinary w =
     findBinary w ''codex''
       [path_join [homedir w, ''.npm'', ''bin'', ''codex''],
        path_join [homedir w, ''.bun'', ''bin'', ''codex''],
        ''/usr/local/bin/codex'',
        ''/opt/homebrew/bin/codex'']"

text \<open>\<^verbatim>\<open>ClaudeCodeClient.getBinary\<close>, with its memo.\<close>

definition getBinary :: "world \<Rightarrow> string option \<times> world" where
  "getBinary w =
     (if truthy (cachedBinary w) then (cachedBinary w, w)
      else
        (case findClaudeBinary w of
           (binary, w') \<Rightarrow>
             (binary, if truthy binary then w'\<lparr>cachedBinary := binary\<rparr> else w')))"

definition str_includes :: "string \<Rightarrow> string \<Rightarrow> bool" where
  \<comment> \<open>\<^verbatim>\<open>output.toString().includes(s)\<close>\<close>
  "str_includes output s = sublist s output"

definition isServerInstalled_claude :: "world \<Rightarrow> bool \<times> world" where
  "isServerInstalled_claude w =
     (case getBinary w of
        (binary, w1) \<Rightarrow>
          if \<not> truthy binary then (False, w1)
          else
            (case execFileSync w1 (or_empty binary) [''mcp'', ''list''] of
               (Inr output, w2) \<Rightarrow> (str_includes output MCP_SERVER_NAME, w2)
             | (Inl e, w2) \<Rightarrow> (False, w2)))"

text \<open>
  The arguments of \<^verbatim>\<open>claude mcp add\<close>: \<^verbatim>\<open>args.splice(4, 0, a, b)\<close> puts \<open>a\<close> and
  \<open>b\<close> in front of the element at index 4.
\<close>

definition splice4 :: "string list \<Rightarrow> string list \<Rightarrow> string list" where
  "splice4 args new = take 4 args @ new @ drop 4 args"

definition claude_add_args :: "world \<Rightarrow> string \<Rightarrow> string list" where
  "claude_add_args w apiKey =
     (let args = [''mcp'', ''add'', MCP_SERVER_NAME, ''-e'', ''CODEALIVE_API_KEY='' @ apiKey,
                  ''-s'', ''user'', ''--'', MCP_COMMAND] @ MCP_ARGS
      in if truthy (env w ''CODEALIVE_BASE_URL'')
         then splice4 args [''-e'', ''CODEALIVE_BASE_URL='' @ or_empty (env w ''CODEALIVE_BASE_URL'')]
         else args)"

definition addServer_claude :: "world \<Rightarrow> string \<Rightarrow> InstallResult \<times> world" where
  "addServer_claude w apiKey =
     (case getBinary w of
        (binary, w1) \<Rightarrow>
          if \<not> truthy binary then (failure ''Claude Code CLI not found'', w1)
          else
            (case execFileSync w1 (or_empty binary)
                    [''mcp'', ''remove'', ''--scope'', ''user'', MCP_SERVER_NAME] of
               (removed, w2) \<Rightarrow>
                 (case execFileSync w2 (or_empty binary) (claude_add_args w2 apiKey) of
                    (Inr out, w3) \<Rightarrow> (ok, w3)
                  | (Inl e, w3) \<Rightarrow> (failure e, w3))))"

definition removeServer_claude :: "world \<Rightarrow> InstallResult \<times> world" where
  "removeServer_claude w =
     (case getBinary w of
        (binary, w1) \<Rightarrow>
          if \<not> truthy binary then (failure ''Claude Code CLI not found'', w1)
          else
            (case execFileSync w1 (or_empty binary)
                    [''mcp'', ''remove'', ''--scope'', ''user'', MCP_SERVER_NAME] of
               (Inr out, w2) \<Rightarrow> (ok, w2)
             | (Inl e, w2) \<Rightarrow> (failure e, w2)))"

definition codex_add_args :: "world \<Rightarrow> string \<Rightarrow> string list" where
  "codex_add_args w apiKey =
     [''mcp'', ''add'', MCP_SERVER_NAME, ''--env'', ''CODEALIVE_API_KEY='' @ apiKey] @
     (if truthy (env w ''CODEALIVE_BASE_URL'')
      then [''--env'', ''CODEALIVE_BASE_URL='' @ or_empty (env w ''CODEALIVE_BASE_URL'')]
      else []) @
     [''--'', MCP_COMMAND] @ MCP_ARGS"

definition addServer_codex :: "world \<Rightarrow> string \<Rightarrow> InstallResult \<times> world" where
  "addServer_codex w apiKey =
     (case findCodexBinary w of
        (binary, w1) \<Rightarrow>
          if \<not> truthy binary then (failure ''Codex CLI not found'', w1)
          else
            (case execFileSync w1 (or_empty binary) [''mcp'', ''remove'', MCP_SERVER_NAME] of
               (removed, w2) \<Rightarrow>
                 (case execFileSync w2 (or_empty binary) (codex_add_args w2 apiKey) of
                    (Inr out, w3) \<Rightarrow> (ok, w3)
                  | (Inl e, w3) \<Rightarrow> (failure e, w3))))"

subsection \<open>The four operations of an adapter\<close>

text \<open>
  The methods of \<^verbatim>\<open>MCPClient\<close>, dispatched as the class hierarchy does.
  \<^verbatim>\<open>CodexClient\<close> overrides neither \<^verbatim>\<open>isServerInstalled\<close> nor
  \<^verbatim>\<open>removeServer\<close>: it has the bodies of the abstract class.
\<close>

definition isServerInstalled_base :: "world \<Rightarrow> bool \<times> world" where
  "isServerInstalled_base w = (False, w)"

definition removeServer_base :: "world \<Rightarrow> InstallResult \<times> world" where
  "removeServer_base w = (failure ''Not implemented'', w)"

fun isClientSupported :: "world \<Rightarrow> client \<Rightarrow> bool \<times> world" where
  "isClientSupported w ClaudeCode = (case getBinary w of (b, w') \<Rightarrow> (b \<noteq> None, w'))"
| "isClientSupported w (Json c) = (isClientSupported_json w c, w)"
| "isClientSupported w Codex = (case findCodexBinary w of (b, w') \<Rightarrow> (b \<noteq> None, w'))"

fun isServerInstalled :: "world \<Rightarrow> client \<Rightarrow> bool \<times> world" where
  "isServerInstalled w ClaudeCode = isServerInstalled_claude w"
| "isServerInstalled w (Json c) = isServerInstalled_json w c"
| "isServerInstalled w Codex = isServerInstalled_base w"

fun addServer :: "world \<Rightarrow> client \<Rightarrow> string \<Rightarrow> InstallResult \<times> world" where
  "addServer w ClaudeCode apiKey = addServer_claude w apiKey"
| "addServer w (Json c) apiKey = addServer_json w c apiKey"
| "addServer w Codex apiKey = addServer_codex w apiKey"

fun removeServer :: "world \<Rightarrow> client \<Rightarrow> InstallResult \<times> world" where
  "removeServer w ClaudeCode = removeServer_claude w"
| "removeServer w (Json c) = removeServer_json w c"
| "removeServer w Codex = removeServer_base w"

section \<open>Key verification (\<^verbatim>\<open>src/auth.ts\<close>)\<close>

text \<open>
  What \<^verbatim>\<open>fetch\<close> and \<^verbatim>\<open>response.json()\<close> can do: throw a value, or answer with a
  status and a body that \<^verbatim>\<open>response.json()\<close> parses or throws on. A thrown value is
  an \<^verbatim>\<open>Error\<close> with a name and a message, or anything else, given by its
  \<^verbatim>\<open>String(error)\<close>.
\<close>

datatype thrown = Error_obj string string | Non_error string

datatype fetch_outcome =
    Fetch_throws thrown
  | Response nat "thrown + json"

record VerifyResult =
  valid :: bool
  message :: string
  datasourceCount :: "nat option"

text \<open>The decimal numeral that a template literal prints for a count or a status.\<close>

definition digit_char :: "nat \<Rightarrow> char" where
  "digit_char d = ''0123456789'' ! d"

function decimal :: "nat \<Rightarrow> string" where
  "decimal n = (if n < 10 then [digit_char n] else decimal (n div 10) @ [digit_char (n mod 10)])"
  by pat_completeness auto
termination
  by (relation "measure id") auto

declare decimal.simps [simp del]

definition response_ok :: "nat \<Rightarrow> bool" where
  \<comment> \<open>\<^verbatim>\<open>response.ok\<close>: a status from 200 to 299\<close>
  "response_ok status = (200 \<le> status \<and> status \<le> 299)"

definition verifyKey_catch :: "thrown \<Rightarrow> VerifyResult" where
  "verifyKey_catch e =
     (case e of
        Error_obj name msg \<Rightarrow>
          if name = ''TimeoutError''
          then \<lparr>valid = False, message = ''Connection timed out.'', datasourceCount = None\<rparr>
          else \<lparr>valid = False, message = ''Cannot connect: '' @ msg, datasourceCount = None\<rparr>
      | Non_error s \<Rightarrow>
          \<lparr>valid = False, message = ''Cannot connect: '' @ s, datasourceCount = None\<rparr>)"

definition verifyKey :: "fetch_outcome \<Rightarrow> VerifyResult" where
  "verifyKey outcome =
     (case outcome of
        Fetch_throws e \<Rightarrow> verifyKey_catch e
      | Response status body \<Rightarrow>
          if \<not> response_ok status then
            (if status = 401
             then \<lparr>valid = False, message = ''API key is invalid or expired.'',
                    datasourceCount = None\<rparr>
             else \<lparr>valid = False, message = ''API returned HTTP '' @ decimal status @ ''.'',
                    datasourceCount = None\<rparr>)
          else
            (case body of
               Inl e \<Rightarrow> verifyKey_catch e
             | Inr data \<Rightarrow>
                 (let count = (case data of JArr xs \<Rightarrow> length xs | other \<Rightarrow> 0)
                  in \<lparr>valid = True,
                      message = ''Connected. '' @ decimal count @ '' data source'' @
                        (if count \<noteq> 1 then ''s'' else '''') @ '' available.'',
                      datasourceCount = Some count\<rparr>)))"

section \<open>Notions of the specification\<close>

text \<open>
  The spec's words, as predicates: a value in which \<open>prop\<close> "maps to an object containing
  the canonical integration name as a key"; the key under which an adapter's entry keeps
  its environment; the command that locates an executable; a body that is no list; a
  thrown error named \<^verbatim>\<open>TimeoutError\<close>.
\<close>

definition has_entry :: "json \<Rightarrow> string \<Rightarrow> string \<Rightarrow> bool" where
  "has_entry v prop key =
     (case v of
        JObj kvs \<Rightarrow>
          (case map_of kvs prop of
             Some (JObj inner) \<Rightarrow> key \<in> set (map fst inner)
           | other \<Rightarrow> False)
      | other \<Rightarrow> False)"

text \<open>
  The same of what \<^verbatim>\<open>jsonc.parse\<close> returned, \<^verbatim>\<open>undefined\<close> holding no entry.
\<close>

definition parsed_entry :: "json option \<Rightarrow> string \<Rightarrow> string \<Rightarrow> bool" where
  "parsed_entry parsed prop key =
     (case parsed of None \<Rightarrow> False | Some v \<Rightarrow> has_entry v prop key)"

text \<open>On a command line, the argument \<open>x\<close> comes right after the flag.\<close>

definition passed_with :: "string \<Rightarrow> string \<Rightarrow> string list \<Rightarrow> bool" where
  "passed_with flag x args = ((flag, x) \<in> set (zip args (tl args)))"


definition env_key :: "json_client \<Rightarrow> string" where
  "env_key c = (if c = OpenCode then ''environment'' else ''env'')"

definition locate_cmd :: "world \<Rightarrow> string" where
  "locate_cmd w = (if platform w = ''win32'' then ''where'' else ''which'')"

definition non_list :: "json \<Rightarrow> bool" where
  "non_list data = (case data of JArr xs \<Rightarrow> False | other \<Rightarrow> True)"

definition is_timeout :: "thrown \<Rightarrow> bool" where
  "is_timeout e = (case e of Error_obj name msg \<Rightarrow> name = ''TimeoutError'' | Non_error s \<Rightarrow> False)"

section \<open>Sample environments\<close>

text \<open>
  A machine of an unlisted platform with Zed's directory; a Linux machine with a
  self-hosted base URL and a Cursor config that holds a foreign server and an old
  entry; the same with a config of which nothing can be recovered, and with a config
  that was cut off after the entry, so that the parser still recovers it; a machine where \<^verbatim>\<open>codex\<close> is
  installed in one of the candidate places and on the search path; a Mac with a
  \<^verbatim>\<open>claude\<close> binary that lists a server once it has been added.
\<close>

definition unix_world :: world where
  "unix_world =
     \<lparr>platform = ''freebsd'', env = Map.empty, homedir = ''/home/u'', files = Map.empty,
      dirs = {''/home/u'', ''/home/u/.config'', ''/home/u/.config/zed''},
      fs_fault = (\<lambda>op p. None), proc = (\<lambda>h i. Inl ''spawn ENOENT''), calls = [],
      cachedBinary = None\<rparr>"

definition selfhost_world :: world where
  "selfhost_world =
     \<lparr>platform = ''linux'',
      env = [''CODEALIVE_BASE_URL'' \<mapsto> ''https://self-hosted.example.com''],
      homedir = ''/home/u'',
      files = [''/home/u/.config/cursor/mcp.json'' \<mapsto>
        Doc (JObj [(''theme'', JStr ''dark''),
                   (''mcpServers'', JObj [(''other'', JObj [(''command'', JStr ''node'')]),
                                         (''codealive'', JObj [(''command'', JStr ''old'')])])])],
      dirs = {''/home/u'', ''/home/u/.config'', ''/home/u/.config/cursor''},
      fs_fault = (\<lambda>op p. None),
      proc = (\<lambda>h i. Inl ''spawn ENOENT''),
      calls = [], cachedBinary = None\<rparr>"

definition broken_world :: world where
  "broken_world =
     selfhost_world\<lparr>files := [''/home/u/.config/cursor/mcp.json'' \<mapsto> Malformed None]\<rparr>"

definition truncated_world :: world where
  "truncated_world =
     selfhost_world\<lparr>files := [''/home/u/.config/cursor/mcp.json'' \<mapsto>
       Malformed (Some (JObj [(''mcpServers'',
         JObj [(''codealive'', JObj [(''command'', JStr ''uvx'')])])]))]\<rparr>"

definition path_world :: world where
  "path_world =
     \<lparr>platform = ''linux'', env = Map.empty, homedir = ''/home/u'',
      files = [''/opt/homebrew/bin/codex'' \<mapsto> Malformed None],
      dirs = {''/opt/homebrew/bin''},
      fs_fault = (\<lambda>op p. None),
      proc = (\<lambda>h i. if i = (''which'', [''codex'']) then Inr ''/usr/bin/codex''
                     else if fst i = ''which'' then Inl ''Command failed: which''
                     else Inr []),
      calls = [], cachedBinary = None\<rparr>"


section \<open>Platform branches\<close>

text \<open>
  C7. The Zed adapter reports itself unsupported on \<^verbatim>\<open>win32\<close>, whatever the file
  system holds, and leaves the state alone.
\<close>

theorem zed_unsupported_on_win32:
  "platform w = ''win32'' \<Longrightarrow> isClientSupported w (Json Zed) = (False, w)"
  by (simp add: isClientSupported_json_def)

theorem zed_unsupported_on_win32_witness:
  "platform (unix_world\<lparr>platform := ''win32''\<rparr>) = ''win32'' \<and>
   existsSync (unix_world\<lparr>platform := ''win32''\<rparr>)
     (path_dirname (getConfigPath (unix_world\<lparr>platform := ''win32''\<rparr>) Zed)) \<and>
   fst (isClientSupported (unix_world\<lparr>platform := ''win32''\<rparr>) (Json Zed)) = False"
  using zed_unsupported_on_win32 [of "unix_world\<lparr>platform := ''win32''\<rparr>"]
  by (simp add: unix_world_def existsSync_def path_dirname_def path_join_def truthy_def)

text \<open>
  C6, as stated: on a platform that is none of \<^verbatim>\<open>darwin\<close>, \<^verbatim>\<open>linux\<close>, \<^verbatim>\<open>win32\<close>
  every JSON-config adapter returns the path of its \<^verbatim>\<open>linux\<close> branch. It fails for
  Cursor: on \<^verbatim>\<open>freebsd\<close> the path is the one in the home directory's dot-directory, not
  the one under \<^verbatim>\<open>.config\<close>.
\<close>

theorem getConfigPath_unrecognized_counterexample:
  "platform unix_world \<notin> {''darwin'', ''linux'', ''win32''} \<and>
   getConfigPath unix_world Cursor = ''/home/u/.cursor/mcp.json'' \<and>
   getConfigPath (unix_world\<lparr>platform := ''linux''\<rparr>) Cursor = ''/home/u/.config/cursor/mcp.json'' \<and>
   getConfigPath unix_world Cursor \<noteq> getConfigPath (unix_world\<lparr>platform := ''linux''\<rparr>) Cursor"
  by (simp add: unix_world_def path_join_def)

text \<open>
  C6, amended: on a platform that is none of the three, every JSON-config adapter but
  Cursor returns the path of its \<^verbatim>\<open>linux\<close> branch, and Cursor returns the path of its
  \<^verbatim>\<open>darwin\<close> branch, \<^verbatim>\<open>.cursor/mcp.json\<close> in the home directory. No branch fails.
\<close>

theorem getConfigPath_unrecognized:
  "platform w \<notin> {''darwin'', ''linux'', ''win32''} \<Longrightarrow>
   (c \<noteq> Cursor \<longrightarrow> getConfigPath w c = getConfigPath (w\<lparr>platform := ''linux''\<rparr>) c) \<and>
   getConfigPath w Cursor = getConfigPath (w\<lparr>platform := ''darwin''\<rparr>) Cursor \<and>
   getConfigPath w Cursor = path_join [homedir w, ''.cursor'', ''mcp.json'']"
  by (cases c) simp_all

theorem getConfigPath_unrecognized_witness:
  "platform unix_world \<notin> {''darwin'', ''linux'', ''win32''} \<and> VSCode \<noteq> Cursor \<and>
   getConfigPath unix_world VSCode = getConfigPath (unix_world\<lparr>platform := ''linux''\<rparr>) VSCode \<and>
   getConfigPath unix_world VSCode = ''/home/u/.config/Code/User/mcp.json''"
  using getConfigPath_unrecognized [of unix_world VSCode]
  by (simp add: unix_world_def path_join_def)

section \<open>The Codex adapter\<close>

text \<open>
  C9. For the Codex adapter \<^verbatim>\<open>isServerInstalled\<close> is false in every state and runs
  nothing (the list of invocations is as before), and \<^verbatim>\<open>removeServer\<close> fails with
  "Not implemented" in every state.
\<close>

theorem codex_inherits_base:
  "isServerInstalled w Codex = (False, w) \<and>
   calls (snd (isServerInstalled w Codex)) = calls w \<and>
   removeServer w Codex = (\<lparr>success = False, error = Some ''Not implemented''\<rparr>, w)"
  by (simp add: isServerInstalled_base_def removeServer_base_def failure_def)

section \<open>Locating a binary\<close>

lemma first_existing_None:
  "first_existing w cs = None \<longleftrightarrow> (\<forall>c \<in> set cs. \<not> existsSync w c)"
  by (induction cs) auto

lemma first_existing_Some:
  "first_existing w cs = Some c \<longleftrightarrow>
     (\<exists>i < length cs. cs ! i = c \<and> existsSync w c \<and> (\<forall>j < i. \<not> existsSync w (cs ! j)))"
proof (induction cs)
  case Nil
  then show ?case by simp
next
  case (Cons a cs)
  show ?case
  proof (cases "existsSync w a")
    case True
    have "(\<exists>i < length (a # cs). (a # cs) ! i = c \<and> existsSync w c \<and>
            (\<forall>j < i. \<not> existsSync w ((a # cs) ! j))) \<longleftrightarrow> a = c"
    proof
      assume "\<exists>i < length (a # cs). (a # cs) ! i = c \<and> existsSync w c \<and>
            (\<forall>j < i. \<not> existsSync w ((a # cs) ! j))"
      then obtain i where i: "i < length (a # cs)" "(a # cs) ! i = c"
        "\<forall>j < i. \<not> existsSync w ((a # cs) ! j)" by blast
      have "i = 0"
      proof (rule ccontr)
        assume "i \<noteq> 0"
        then have "0 < i" by simp
        with i(3) have "\<not> existsSync w ((a # cs) ! 0)" by blast
        with True show False by simp
      qed
      with i(2) show "a = c" by simp
    next
      assume "a = c"
      with True show "\<exists>i < length (a # cs). (a # cs) ! i = c \<and> existsSync w c \<and>
            (\<forall>j < i. \<not> existsSync w ((a # cs) ! j))"
        by (intro exI [of _ 0]) simp
    qed
    with True show ?thesis by auto
  next
    case False
    have "(\<exists>i < length (a # cs). (a # cs) ! i = c \<and> existsSync w c \<and>
            (\<forall>j < i. \<not> existsSync w ((a # cs) ! j))) \<longleftrightarrow>
          (\<exists>i < length cs. cs ! i = c \<and> existsSync w c \<and> (\<forall>j < i. \<not> existsSync w (cs ! j)))"
      (is "?L \<longleftrightarrow> ?R")
    proof
      assume ?L
      then obtain i where i: "i < length (a # cs)" "(a # cs) ! i = c" "existsSync w c"
        "\<forall>j < i. \<not> existsSync w ((a # cs) ! j)" by blast
      from i(2,3) False have "i \<noteq> 0" by (cases i) auto
      then obtain k where k: "i = Suc k" by (cases i) auto
      have "\<forall>j < k. \<not> existsSync w (cs ! j)"
      proof (intro allI impI)
        fix j assume "j < k"
        then have "Suc j < i" using k by simp
        with i(4) have "\<not> existsSync w ((a # cs) ! Suc j)" by blast
        then show "\<not> existsSync w (cs ! j)" by simp
      qed
      with i k show ?R by (intro exI [of _ k]) auto
    next
      assume ?R
      then obtain k where k: "k < length cs" "cs ! k = c" "existsSync w c"
        "\<forall>j < k. \<not> existsSync w (cs ! j)" by blast
      have "\<forall>j < Suc k. \<not> existsSync w ((a # cs) ! j)"
      proof (intro allI impI)
        fix j assume "j < Suc k"
        then show "\<not> existsSync w ((a # cs) ! j)"
          using False k(4) by (cases j) auto
      qed
      with k show ?L by (intro exI [of _ "Suc k"]) auto
    qed
    with False Cons.IH show ?thesis by simp
  qed
qed

text \<open>
  C10. \<^verbatim>\<open>findBinary\<close> returns the first candidate that exists, without running
  anything; when no candidate exists and the locating command succeeds, it returns the
  name it was given, whatever the command printed; it returns \<^verbatim>\<open>null\<close> exactly when no
  candidate exists and the locating command fails.
\<close>

theorem findBinary_result:
  "(\<forall>i. i < length cs \<and> existsSync w (cs ! i) \<and> (\<forall>j < i. \<not> existsSync w (cs ! j)) \<longrightarrow>
        findBinary w name cs = (Some (cs ! i), w)) \<and>
   (\<forall>out. (\<forall>c \<in> set cs. \<not> existsSync w c) \<and>
          proc w (calls w) (locate_cmd w, [name]) = Inr out \<longrightarrow>
        fst (findBinary w name cs) = Some name) \<and>
   (fst (findBinary w name cs) = None \<longleftrightarrow>
      (\<forall>c \<in> set cs. \<not> existsSync w c) \<and>
      (\<exists>e. proc w (calls w) (locate_cmd w, [name]) = Inl e))"
proof (intro conjI allI impI)
  fix i
  assume "i < length cs \<and> existsSync w (cs ! i) \<and> (\<forall>j < i. \<not> existsSync w (cs ! j))"
  then have "first_existing w cs = Some (cs ! i)"
    unfolding first_existing_Some by blast
  then show "findBinary w name cs = (Some (cs ! i), w)"
    by (simp add: findBinary_def)
next
  fix out
  assume "(\<forall>c \<in> set cs. \<not> existsSync w c) \<and>
          proc w (calls w) (locate_cmd w, [name]) = Inr out"
  then have "first_existing w cs = None" and "proc w (calls w) (locate_cmd w, [name]) = Inr out"
    by (simp_all add: first_existing_None)
  then show "fst (findBinary w name cs) = Some name"
    by (simp add: findBinary_def execFileSync_def locate_cmd_def)
next
  show "fst (findBinary w name cs) = None \<longleftrightarrow>
      (\<forall>c \<in> set cs. \<not> existsSync w c) \<and>
      (\<exists>e. proc w (calls w) (locate_cmd w, [name]) = Inl e)"
  proof (cases "first_existing w cs")
    case None
    then have "\<forall>c \<in> set cs. \<not> existsSync w c" by (simp add: first_existing_None)
    with None show ?thesis
      by (cases "proc w (calls w) (locate_cmd w, [name])")
         (simp_all add: findBinary_def execFileSync_def locate_cmd_def)
  next
    case (Some c)
    then have "\<not> (\<forall>c \<in> set cs. \<not> existsSync w c)"
      using first_existing_None [of w cs] by simp
    with Some show ?thesis by (simp add: findBinary_def)
  qed
qed

theorem findBinary_result_witness:
  "findBinary path_world ''codex'' [''/usr/local/bin/codex'', ''/opt/homebrew/bin/codex'']
     = (Some ''/opt/homebrew/bin/codex'', path_world) \<and>
   fst (findBinary path_world ''codex'' [''/usr/local/bin/codex'']) = Some ''codex'' \<and>
   fst (findBinary path_world ''claude'' [''/usr/local/bin/claude'']) = None"
proof -
  note fb = findBinary_result
  have e1: "existsSync path_world ''/opt/homebrew/bin/codex''"
    and e2: "\<not> existsSync path_world ''/usr/local/bin/codex''"
    and e3: "\<not> existsSync path_world ''/usr/local/bin/claude''"
    by (simp_all add: existsSync_def path_world_def)
  have p1: "proc path_world (calls path_world) (locate_cmd path_world, [''codex'']) =
      Inr ''/usr/bin/codex''"
    and p2: "proc path_world (calls path_world) (locate_cmd path_world, [''claude'']) =
      Inl ''Command failed: which''"
    by (simp_all add: path_world_def locate_cmd_def)
  have a: "findBinary path_world ''codex'' [''/usr/local/bin/codex'', ''/opt/homebrew/bin/codex'']
     = (Some ''/opt/homebrew/bin/codex'', path_world)"
    using fb [where cs = "[''/usr/local/bin/codex'', ''/opt/homebrew/bin/codex'']"
        and w = path_world and name = "''codex''"]
      e1 e2 by (auto dest!: spec [of _ 1] simp: less_Suc_eq)
  have b: "fst (findBinary path_world ''codex'' [''/usr/local/bin/codex'']) = Some ''codex''"
    using fb [where cs = "[''/usr/local/bin/codex'']" and w = path_world and name = "''codex''"] e2 p1 by simp
  have c: "fst (findBinary path_world ''claude'' [''/usr/local/bin/claude'']) = None"
    using fb [where cs = "[''/usr/local/bin/claude'']" and w = path_world and name = "''claude''"] e3 p2 by simp
  from a b c show ?thesis by simp
qed

section \<open>The cases of key verification\<close>

lemma decimal_1: "decimal (Suc 0) = ''1''"
  by (simp add: decimal.simps [of "Suc 0"] digit_char_def)

lemma decimal_3: "decimal (Suc (Suc (Suc 0))) = ''3''"
  by (simp add: decimal.simps [of "Suc (Suc (Suc 0))"] digit_char_def)

lemma decimal_503: "decimal 503 = ''503''"
  by (simp add: decimal.simps [of 503] decimal.simps [of 50] decimal.simps [of 5] digit_char_def)

lemma no_plural_1: "\<not> sublist ''1 data sources'' ''Connected. 1 data source available.''"
  by (simp add: sublist_code)

lemma verifyKey_list:
  "verifyKey (Response 200 (Inr (JArr xs))) =
     \<lparr>valid = True,
      message = ''Connected. '' @ decimal (length xs) @ '' data source'' @
        (if length xs \<noteq> 1 then ''s'' else []) @ '' available.'',
      datasourceCount = Some (length xs)\<rparr>"
  by (simp add: verifyKey_def response_ok_def Let_def)

lemma verifyKey_catch_timeout:
  "is_timeout e \<Longrightarrow>
   verifyKey_catch e = \<lparr>valid = False, message = ''Connection timed out.'', datasourceCount = None\<rparr>"
  by (cases e) (simp_all add: verifyKey_catch_def is_timeout_def)

lemma verifyKey_catch_other:
  "\<not> is_timeout e \<Longrightarrow>
   \<exists>rest. verifyKey_catch e =
     \<lparr>valid = False, message = ''Cannot connect: '' @ rest, datasourceCount = None\<rparr>"
  by (cases e) (simp_all add: verifyKey_catch_def is_timeout_def)

lemma verifyKey_thrown:
  "outcome = Fetch_throws e \<or> (outcome = Response status (Inl e) \<and> response_ok status) \<Longrightarrow>
   verifyKey outcome = verifyKey_catch e"
  by (auto simp add: verifyKey_def)

text \<open>
  C3. \<^verbatim>\<open>verifyKey\<close>: status 200 with a list of \<open>n\<close> elements is valid with count
  \<open>n\<close> and a message that contains "\<open>n\<close> data sources", or "1 data source" and not
  "1 data sources" when \<open>n = 1\<close>; status 200 with a body that is no list is valid with
  count 0; status 401 is invalid with "invalid or expired"; any other status outside
  200..299 is invalid with a message that contains the status; a thrown error (of
  \<^verbatim>\<open>fetch\<close> or of \<^verbatim>\<open>response.json()\<close>) named \<^verbatim>\<open>TimeoutError\<close> is invalid with
  "timed out", any other thrown value is invalid with "Cannot connect".
\<close>

theorem verifyKey_cases:
  "(valid (verifyKey (Response 200 (Inr (JArr xs)))) \<and>
    datasourceCount (verifyKey (Response 200 (Inr (JArr xs)))) = Some (length xs) \<and>
    (length xs \<noteq> 1 \<longrightarrow>
       sublist (decimal (length xs) @ '' data sources'')
         (message (verifyKey (Response 200 (Inr (JArr xs)))))) \<and>
    (length xs = 1 \<longrightarrow>
       sublist ''1 data source'' (message (verifyKey (Response 200 (Inr (JArr xs))))) \<and>
       \<not> sublist ''1 data sources'' (message (verifyKey (Response 200 (Inr (JArr xs))))))) \<and>
   (non_list data \<longrightarrow>
      valid (verifyKey (Response 200 (Inr data))) \<and>
      datasourceCount (verifyKey (Response 200 (Inr data))) = Some 0) \<and>
   (\<not> valid (verifyKey (Response 401 body)) \<and>
    sublist ''invalid or expired'' (message (verifyKey (Response 401 body)))) \<and>
   (\<not> response_ok status \<and> status \<noteq> 401 \<longrightarrow>
      \<not> valid (verifyKey (Response status body)) \<and>
      sublist (decimal status) (message (verifyKey (Response status body)))) \<and>
   (outcome = Fetch_throws e \<or> (outcome = Response st (Inl e) \<and> response_ok st) \<longrightarrow>
      \<not> valid (verifyKey outcome) \<and>
      (is_timeout e \<longrightarrow> sublist ''timed out'' (message (verifyKey outcome))) \<and>
      (\<not> is_timeout e \<longrightarrow> sublist ''Cannot connect'' (message (verifyKey outcome))))"
proof (intro conjI impI)
  let ?m = "message (verifyKey (Response 200 (Inr (JArr xs))))"
  show "valid (verifyKey (Response 200 (Inr (JArr xs))))"
    by (simp add: verifyKey_list)
  show "datasourceCount (verifyKey (Response 200 (Inr (JArr xs)))) = Some (length xs)"
    by (simp add: verifyKey_list)
  show "sublist (decimal (length xs) @ '' data sources'') ?m" if "length xs \<noteq> 1"
  proof -
    have "?m = ''Connected. '' @ (decimal (length xs) @ '' data sources'') @ '' available.''"
      using that by (simp add: verifyKey_list)
    then show ?thesis by (simp only: sublist_appendI)
  qed
  show "sublist ''1 data source'' ?m" if "length xs = 1"
  proof -
    have "?m = ''Connected. '' @ ''1 data source'' @ '' available.''"
      using that by (simp add: verifyKey_list decimal_1)
    then show ?thesis by (simp only: sublist_appendI)
  qed
  show "\<not> sublist ''1 data sources'' ?m" if "length xs = 1"
  proof -
    have "?m = ''Connected. 1 data source available.''"
      using that by (simp add: verifyKey_list decimal_1)
    then show ?thesis by (simp only: no_plural_1 not_False_eq_True)
  qed
  show "valid (verifyKey (Response 200 (Inr data)))" if "non_list data"
    by (cases data) (simp_all add: verifyKey_def response_ok_def Let_def)
  show "datasourceCount (verifyKey (Response 200 (Inr data))) = Some 0" if "non_list data"
    using that by (cases data) (simp_all add: verifyKey_def response_ok_def Let_def non_list_def)
  show "\<not> valid (verifyKey (Response 401 body))"
    by (simp add: verifyKey_def response_ok_def)
  have "message (verifyKey (Response 401 body)) = ''API key is '' @ ''invalid or expired'' @ ''.''"
    by (simp add: verifyKey_def response_ok_def)
  then show "sublist ''invalid or expired'' (message (verifyKey (Response 401 body)))"
    by (simp only: sublist_appendI)
  show "\<not> valid (verifyKey (Response status body))" if "\<not> response_ok status \<and> status \<noteq> 401"
    using that by (simp add: verifyKey_def)
  show "sublist (decimal status) (message (verifyKey (Response status body)))"
    if "\<not> response_ok status \<and> status \<noteq> 401"
  proof -
    have "message (verifyKey (Response status body)) =
        ''API returned HTTP '' @ decimal status @ ''.''"
      using that by (simp add: verifyKey_def)
    then show ?thesis by (simp only: sublist_appendI)
  qed
next
  assume thrown: "outcome = Fetch_throws e \<or> (outcome = Response st (Inl e) \<and> response_ok st)"
  then have eq: "verifyKey outcome = verifyKey_catch e"
    by (rule verifyKey_thrown)
  show "\<not> valid (verifyKey outcome)"
    unfolding eq by (cases e) (simp_all add: verifyKey_catch_def)
  show "sublist ''timed out'' (message (verifyKey outcome))" if "is_timeout e"
  proof -
    have "message (verifyKey outcome) = ''Connection '' @ ''timed out'' @ ''.''"
      unfolding eq using that by (simp add: verifyKey_catch_timeout)
    then show ?thesis by (simp only: sublist_appendI)
  qed
  show "sublist ''Cannot connect'' (message (verifyKey outcome))" if "\<not> is_timeout e"
  proof -
    from that obtain rest where
      "verifyKey_catch e =
         \<lparr>valid = False, message = ''Cannot connect: '' @ rest, datasourceCount = None\<rparr>"
      using verifyKey_catch_other by blast
    then have "message (verifyKey outcome) = [] @ ''Cannot connect'' @ (CHR '':'' # CHR '' '' # rest)"
      unfolding eq by simp
    then show ?thesis by (simp only: sublist_appendI)
  qed
qed

theorem verifyKey_cases_witness:
  "sublist ''3 data sources'' (message (verifyKey (Response 200 (Inr (JArr [JNull, JNull, JNull]))))) \<and>
   sublist ''1 data source'' (message (verifyKey (Response 200 (Inr (JArr [JStr ''repo''])))))  \<and>
   \<not> sublist ''1 data sources'' (message (verifyKey (Response 200 (Inr (JArr [JStr ''repo'']))))) \<and>
   datasourceCount (verifyKey (Response 200 (Inr (JObj [])))) = Some 0 \<and>
   sublist ''503'' (message (verifyKey (Response 503 (Inr JNull)))) \<and>
   sublist ''timed out'' (message (verifyKey (Fetch_throws (Error_obj ''TimeoutError'' ''aborted'')))) \<and>
   sublist ''Cannot connect'' (message (verifyKey (Fetch_throws (Error_obj ''TypeError'' ''fetch failed''))))"
proof -
  note vk = verifyKey_cases
  have a: "sublist ''3 data sources''
      (message (verifyKey (Response 200 (Inr (JArr [JNull, JNull, JNull])))))"
    using vk [where xs = "[JNull, JNull, JNull]"] by (simp add: decimal_3)
  have b: "sublist ''1 data source'' (message (verifyKey (Response 200 (Inr (JArr [JStr ''repo''])))))
      \<and> \<not> sublist ''1 data sources'' (message (verifyKey (Response 200 (Inr (JArr [JStr ''repo''])))))"
    using vk [where xs = "[JStr ''repo'']"] by simp
  have c: "datasourceCount (verifyKey (Response 200 (Inr (JObj [])))) = Some 0"
    using vk [where data = "JObj []"] by (simp add: non_list_def)
  have d: "sublist ''503'' (message (verifyKey (Response 503 (Inr JNull))))"
    using vk [where status = 503 and body = "Inr JNull"] by (simp add: response_ok_def decimal_503)
  have e: "sublist ''timed out''
      (message (verifyKey (Fetch_throws (Error_obj ''TimeoutError'' ''aborted''))))"
    using vk [where outcome = "Fetch_throws (Error_obj ''TimeoutError'' ''aborted'')"
        and e = "Error_obj ''TimeoutError'' ''aborted''"]
    by (simp add: is_timeout_def)
  have f: "sublist ''Cannot connect''
      (message (verifyKey (Fetch_throws (Error_obj ''TypeError'' ''fetch failed''))))"
    using vk [where outcome = "Fetch_throws (Error_obj ''TypeError'' ''fetch failed'')"
        and e = "Error_obj ''TypeError'' ''fetch failed''"]
    by (simp add: is_timeout_def)
  from a b c d e f show ?thesis by blast
qed

section \<open>The base URL override\<close>

lemma getServerConfig_env:
  "js_get (Some (getServerConfig w c apiKey)) (env_key c) = Some (record_json (buildEnv w apiKey))"
  by (cases c) (simp_all add: js_get_def env_key_def)

text \<open>
  The JSON-config adapters and the Codex adapter do what is asked of every adapter. The
  entry of a JSON-config adapter keeps the record of \<^verbatim>\<open>buildEnv\<close> under its environment
  key. When \<^verbatim>\<open>CODEALIVE_BASE_URL\<close> has a value (a string that is not empty), that record
  holds the API key and the URL, and the arguments of \<^verbatim>\<open>codex mcp add\<close> carry both,
  each behind its own \<^verbatim>\<open>--env\<close>; when it has none, the record holds the API key alone
  and the arguments have no assignment of the URL.
\<close>

lemma base_url_override:
  "js_get (Some (getServerConfig w c apiKey)) (env_key c) = Some (record_json (buildEnv w apiKey)) \<and>
   (env w ''CODEALIVE_BASE_URL'' = Some url \<and> url \<noteq> [] \<longrightarrow>
      buildEnv w apiKey = [(''CODEALIVE_API_KEY'', apiKey), (''CODEALIVE_BASE_URL'', url)] \<and>
      codex_add_args w apiKey =
        [''mcp'', ''add'', ''codealive'', ''--env'', ''CODEALIVE_API_KEY='' @ apiKey,
         ''--env'', ''CODEALIVE_BASE_URL='' @ url, ''--'', ''uvx'', ''codealive-mcp'']) \<and>
   (env w ''CODEALIVE_BASE_URL'' = None \<or> env w ''CODEALIVE_BASE_URL'' = Some [] \<longrightarrow>
      buildEnv w apiKey = [(''CODEALIVE_API_KEY'', apiKey)] \<and>
      codex_add_args w apiKey =
        [''mcp'', ''add'', ''codealive'', ''--env'', ''CODEALIVE_API_KEY='' @ apiKey,
         ''--'', ''uvx'', ''codealive-mcp''])"
  by (auto simp add: getServerConfig_env buildEnv_def codex_add_args_def truthy_def or_empty_def
      MCP_SERVER_NAME_def MCP_COMMAND_def MCP_ARGS_def)

lemma base_url_override_example:
  "env selfhost_world ''CODEALIVE_BASE_URL'' = Some ''https://self-hosted.example.com'' \<and>
   js_get (Some (getServerConfig selfhost_world OpenCode ''test-key'')) ''environment'' =
     Some (JObj [(''CODEALIVE_API_KEY'', JStr ''test-key''),
                 (''CODEALIVE_BASE_URL'', JStr ''https://self-hosted.example.com'')]) \<and>
   env (selfhost_world\<lparr>env := Map.empty\<rparr>) ''CODEALIVE_BASE_URL'' = None \<and>
   js_get (Some (getServerConfig (selfhost_world\<lparr>env := Map.empty\<rparr>) Zed ''test-key'')) ''env'' =
     Some (JObj [(''CODEALIVE_API_KEY'', JStr ''test-key'')])"
proof -
  note bu = base_url_override
  have a: "env selfhost_world ''CODEALIVE_BASE_URL'' = Some ''https://self-hosted.example.com''"
    by (simp add: selfhost_world_def)
  have b: "env (selfhost_world\<lparr>env := Map.empty\<rparr>) ''CODEALIVE_BASE_URL'' = None"
    by simp
  have c: "js_get (Some (getServerConfig selfhost_world OpenCode ''test-key'')) ''environment'' =
     Some (JObj [(''CODEALIVE_API_KEY'', JStr ''test-key''),
                 (''CODEALIVE_BASE_URL'', JStr ''https://self-hosted.example.com'')])"
    using bu [where w = selfhost_world and c = OpenCode and apiKey = "''test-key''"
        and url = "''https://self-hosted.example.com''"] a
    by (simp del: getServerConfig.simps add: env_key_def record_json_def)
  have d: "js_get (Some (getServerConfig (selfhost_world\<lparr>env := Map.empty\<rparr>) Zed ''test-key'')) ''env'' =
     Some (JObj [(''CODEALIVE_API_KEY'', JStr ''test-key'')])"
    using bu [where w = "selfhost_world\<lparr>env := Map.empty\<rparr>" and c = Zed
        and apiKey = "''test-key''"] b
    by (simp del: getServerConfig.simps add: env_key_def record_json_def)
  from a b c d show ?thesis by blast
qed

text \<open>
  The arguments of \<^verbatim>\<open>claude mcp add\<close> in general: with the override set, the inserted
  pair lands between the first \<^verbatim>\<open>-e\<close> and the assignment of the API key.
\<close>

lemma claude_add_args_with_base_url:
  "env w ''CODEALIVE_BASE_URL'' = Some url \<Longrightarrow> url \<noteq> [] \<Longrightarrow>
   claude_add_args w apiKey =
     [''mcp'', ''add'', ''codealive'', ''-e'', ''-e'', ''CODEALIVE_BASE_URL='' @ url,
      ''CODEALIVE_API_KEY='' @ apiKey, ''-s'', ''user'', ''--'', ''uvx'', ''codealive-mcp'']"
  by (simp add: claude_add_args_def splice4_def truthy_def or_empty_def MCP_SERVER_NAME_def
      MCP_COMMAND_def MCP_ARGS_def)

text \<open>
  C5 asks of every adapter that, with \<^verbatim>\<open>CODEALIVE_BASE_URL\<close> set, the environment it
  generates holds that value alongside \<^verbatim>\<open>CODEALIVE_API_KEY\<close>. The Claude Code adapter
  misses it: with the variable set to \<^verbatim>\<open>https://self-hosted.example.com\<close> and the key
  \<^verbatim>\<open>k\<close>, \<^verbatim>\<open>args.splice(4, 0, ...)\<close> yields the command line below, where the first
  \<^verbatim>\<open>-e\<close> is followed by another \<^verbatim>\<open>-e\<close> and the assignment of the API key follows no
  \<^verbatim>\<open>-e\<close> any more. Without the variable the same adapter passes the API key behind
  \<^verbatim>\<open>-e\<close>, and with it the Codex adapter passes both assignments behind \<^verbatim>\<open>--env\<close>.
\<close>

theorem claude_base_url_args:
  "env selfhost_world ''CODEALIVE_BASE_URL'' = Some ''https://self-hosted.example.com'' \<and>
   claude_add_args selfhost_world ''k'' =
     [''mcp'', ''add'', ''codealive'', ''-e'', ''-e'',
      ''CODEALIVE_BASE_URL=https://self-hosted.example.com'', ''CODEALIVE_API_KEY=k'',
      ''-s'', ''user'', ''--'', ''uvx'', ''codealive-mcp''] \<and>
   passed_with ''-e'' ''-e'' (claude_add_args selfhost_world ''k'') \<and>
   \<not> passed_with ''-e'' ''CODEALIVE_API_KEY=k'' (claude_add_args selfhost_world ''k'') \<and>
   passed_with ''-e'' ''CODEALIVE_API_KEY=k''
     (claude_add_args (selfhost_world\<lparr>env := Map.empty\<rparr>) ''k'') \<and>
   passed_with ''--env'' ''CODEALIVE_API_KEY=k'' (codex_add_args selfhost_world ''k'') \<and>
   passed_with ''--env'' ''CODEALIVE_BASE_URL=https://self-hosted.example.com''
     (codex_add_args selfhost_world ''k'')"
  by (simp add: selfhost_world_def claude_add_args_def codex_add_args_def splice4_def
      passed_with_def truthy_def or_empty_def MCP_SERVER_NAME_def MCP_COMMAND_def MCP_ARGS_def)

section \<open>Reading the registration\<close>

lemma js_in_bound: "map_of kvs k = Some u \<Longrightarrow> js_in k (Some (JObj kvs)) = Inr True"
  by (auto simp add: js_in_def dest: map_of_SomeD intro: rev_image_eqI)

lemma js_in_unbound: "map_of kvs k = None \<Longrightarrow> js_in k (Some (JObj kvs)) = Inr False"
  by (simp add: js_in_def map_of_eq_None_iff)

lemma js_in_keys: "js_in k (Some (JObj kvs)) = Inr (k \<in> set (map fst kvs))"
  by (simp add: js_in_def)

lemma js_in_arr: "js_in k (Some (JArr xs)) = Inr False"
  by (simp add: js_in_def)

lemma isServerInstalled_json_parsed:
  assumes nf: "fs_fault w ReadFile (getConfigPath w c) = None"
    and f: "files w (getConfigPath w c) = Some t"
  shows "isServerInstalled_json w c =
    (parsed_entry (jsonc_parse t) (getServerPropertyName c) MCP_SERVER_NAME, w)"
proof -
  have ex: "existsSync w (getConfigPath w c)"
    using f by (auto simp add: existsSync_def)
  have rd: "readFile w (getConfigPath w c) = Inr t"
    using nf f by (simp add: readFile_def)
  show ?thesis
  proof (cases "jsonc_parse t")
    case None
    with ex rd show ?thesis
      by (simp add: isServerInstalled_json_def isServerInstalled_try_def js_in_def
          parsed_entry_def Let_def)
  next
    case (Some v)
    show ?thesis
    proof (cases v)
      case (JObj kvs)
      show ?thesis
      proof (cases "map_of kvs (getServerPropertyName c)")
        case None
        then show ?thesis
          using ex rd JObj Some
          by (simp add: isServerInstalled_json_def isServerInstalled_try_def
              js_in_unbound has_entry_def parsed_entry_def Let_def)
      next
        case (Some u)
        then show ?thesis
          using ex rd JObj \<open>jsonc_parse t = Some v\<close>
          by (cases u)
             (simp_all add: isServerInstalled_json_def isServerInstalled_try_def
                js_in_bound js_in_arr has_entry_def parsed_entry_def js_get_def
                typeof_object_def Let_def js_in_keys [of MCP_SERVER_NAME])
      qed
    qed (use ex rd Some in \<open>simp_all add: isServerInstalled_json_def isServerInstalled_try_def
          js_in_def has_entry_def parsed_entry_def Let_def\<close>)
  qed
qed

lemma isServerInstalled_json_Doc:
  assumes nf: "fs_fault w ReadFile (getConfigPath w c) = None"
    and f: "files w (getConfigPath w c) = Some (Doc v)"
  shows "isServerInstalled_json w c =
    (has_entry v (getServerPropertyName c) MCP_SERVER_NAME, w)"
  using isServerInstalled_json_parsed [OF nf f]
  by (simp add: jsonc_parse_def parsed_entry_def)

lemma isServerInstalled_json_unread:
  assumes "files w (getConfigPath w c) = None \<or> fs_fault w ReadFile (getConfigPath w c) \<noteq> None"
  shows "isServerInstalled_json w c = (False, w)"
proof (cases "readFile w (getConfigPath w c)")
  case (Inl e)
  then show ?thesis
    by (simp add: isServerInstalled_json_def isServerInstalled_try_def Let_def)
next
  case (Inr t)
  with assms show ?thesis
    by (auto simp add: readFile_def split: option.splits)
qed

lemma isServerInstalled_json_world: "snd (isServerInstalled_json w c) = w"
  by (simp add: isServerInstalled_json_def split: sum.splits)

text \<open>
  C4, as stated: \<^verbatim>\<open>isServerInstalled\<close> returns false when the config file is
  unparsable. It fails on a config that was cut off after the entry: the text is
  malformed, the parser recovers the object with the entry, nothing looks at the parse
  errors, and the answer of the Cursor adapter is true.
\<close>

theorem isServerInstalled_malformed_counterexample:
  "files truncated_world (getConfigPath truncated_world Cursor) =
     Some (Malformed (Some (JObj [(''mcpServers'',
       JObj [(''codealive'', JObj [(''command'', JStr ''uvx'')])])]))) \<and>
   fst (isServerInstalled truncated_world (Json Cursor))"
proof -
  have p: "getConfigPath truncated_world Cursor = ''/home/u/.config/cursor/mcp.json''"
    by (simp add: truncated_world_def selfhost_world_def path_join_def)
  have f: "files truncated_world (getConfigPath truncated_world Cursor) =
     Some (Malformed (Some (JObj [(''mcpServers'',
       JObj [(''codealive'', JObj [(''command'', JStr ''uvx'')])])])))"
    unfolding p by (simp add: truncated_world_def)
  have "fst (isServerInstalled truncated_world (Json Cursor))"
    by code_simp
  with f show ?thesis by blast
qed

text \<open>
  C4, amended. For a JSON-config adapter \<^verbatim>\<open>isServerInstalled\<close> returns a boolean and
  the state it was given (nothing is written or created). The answer is false when the
  config file is absent and when it holds no value. When the file holds a well-formed
  text that can be read, the answer is true exactly if the property name of the adapter
  maps to an object that has the key "codealive"; when it holds a malformed text that can
  be read, the answer is true exactly if that holds of the value that the parser recovers
  from it, and false if it recovers none.
\<close>

theorem isServerInstalled_json_correct:
  "isServerInstalled w (Json c) = (b, w') \<Longrightarrow>
   w' = w \<and>
   (files w (getConfigPath w c) = None \<longrightarrow> \<not> b) \<and>
   (files w (getConfigPath w c) = Some Empty \<longrightarrow> \<not> b) \<and>
   (\<forall>v. files w (getConfigPath w c) = Some (Doc v) \<and>
        fs_fault w ReadFile (getConfigPath w c) = None \<longrightarrow>
        (b \<longleftrightarrow> has_entry v (getServerPropertyName c) MCP_SERVER_NAME)) \<and>
   (\<forall>recovered. files w (getConfigPath w c) = Some (Malformed recovered) \<and>
        fs_fault w ReadFile (getConfigPath w c) = None \<longrightarrow>
        (b \<longleftrightarrow> parsed_entry recovered (getServerPropertyName c) MCP_SERVER_NAME))"
proof -
  assume "isServerInstalled w (Json c) = (b, w')"
  then have run: "isServerInstalled_json w c = (b, w')"
    by simp
  have w: "w' = w"
    using isServerInstalled_json_world [of w c] run by simp
  have absent: "\<not> b" if "files w (getConfigPath w c) = None"
    using isServerInstalled_json_unread [of w c] that run by simp
  have empty: "\<not> b" if f: "files w (getConfigPath w c) = Some Empty"
  proof (cases "fs_fault w ReadFile (getConfigPath w c)")
    case None
    from isServerInstalled_json_parsed [OF None f] run show ?thesis
      by (simp add: jsonc_parse_def parsed_entry_def)
  next
    case (Some e)
    with isServerInstalled_json_unread [of w c] run show ?thesis by simp
  qed
  have good: "b \<longleftrightarrow> has_entry v (getServerPropertyName c) MCP_SERVER_NAME"
    if "files w (getConfigPath w c) = Some (Doc v) \<and>
        fs_fault w ReadFile (getConfigPath w c) = None" for v
    using isServerInstalled_json_Doc [of w c v] that run by simp
  have bad: "b \<longleftrightarrow> parsed_entry recovered (getServerPropertyName c) MCP_SERVER_NAME"
    if "files w (getConfigPath w c) = Some (Malformed recovered) \<and>
        fs_fault w ReadFile (getConfigPath w c) = None" for recovered
    using isServerInstalled_json_parsed [of w c "Malformed recovered"] that run
    by (simp add: jsonc_parse_def)
  from w absent empty good bad show ?thesis by blast
qed

theorem isServerInstalled_json_correct_witness:
  "fst (isServerInstalled selfhost_world (Json Cursor)) \<and>
   snd (isServerInstalled selfhost_world (Json Cursor)) = selfhost_world \<and>
   files selfhost_world (getConfigPath selfhost_world VSCode) = None \<and>
   \<not> fst (isServerInstalled selfhost_world (Json VSCode)) \<and>
   files broken_world (getConfigPath broken_world Cursor) = Some (Malformed None) \<and>
   \<not> fst (isServerInstalled broken_world (Json Cursor)) \<and>
   files (broken_world\<lparr>files := [''/home/u/.config/cursor/mcp.json'' \<mapsto> Empty]\<rparr>)
     (getConfigPath broken_world Cursor) = Some Empty \<and>
   \<not> fst (isServerInstalled
     (broken_world\<lparr>files := [''/home/u/.config/cursor/mcp.json'' \<mapsto> Empty]\<rparr>) (Json Cursor))"
proof -
  note inst = isServerInstalled_json_correct
  let ?empty_world = "broken_world\<lparr>files := [''/home/u/.config/cursor/mcp.json'' \<mapsto> Empty]\<rparr>"
  have p: "getConfigPath selfhost_world Cursor = ''/home/u/.config/cursor/mcp.json''"
    "getConfigPath selfhost_world VSCode = ''/home/u/.config/Code/User/mcp.json''"
    "getConfigPath broken_world Cursor = ''/home/u/.config/cursor/mcp.json''"
    "getConfigPath ?empty_world Cursor = ''/home/u/.config/cursor/mcp.json''"
    by (simp_all add: selfhost_world_def broken_world_def path_join_def)
  have f1: "files selfhost_world (getConfigPath selfhost_world Cursor) =
      Some (Doc (JObj [(''theme'', JStr ''dark''),
        (''mcpServers'', JObj [(''other'', JObj [(''command'', JStr ''node'')]),
                              (''codealive'', JObj [(''command'', JStr ''old'')])])]))"
    and f2: "files selfhost_world (getConfigPath selfhost_world VSCode) = None"
    and f3: "files broken_world (getConfigPath broken_world Cursor) = Some (Malformed None)"
    and f4: "files ?empty_world (getConfigPath ?empty_world Cursor) = Some Empty"
    and nf: "fs_fault selfhost_world ReadFile (getConfigPath selfhost_world Cursor) = None"
    and nf3: "fs_fault broken_world ReadFile (getConfigPath broken_world Cursor) = None"
    unfolding p by (simp_all add: selfhost_world_def broken_world_def)
  have a: "fst (isServerInstalled selfhost_world (Json Cursor)) \<and>
      snd (isServerInstalled selfhost_world (Json Cursor)) = selfhost_world"
    using inst [OF surjective_pairing, of selfhost_world Cursor] f1 nf
    by (simp add: has_entry_def MCP_SERVER_NAME_def)
  have b: "\<not> fst (isServerInstalled selfhost_world (Json VSCode))"
    using inst [OF surjective_pairing, of selfhost_world VSCode] f2 by simp
  have c: "\<not> fst (isServerInstalled broken_world (Json Cursor))"
    using inst [OF surjective_pairing, of broken_world Cursor] f3 nf3
    by (simp add: parsed_entry_def)
  have d: "\<not> fst (isServerInstalled ?empty_world (Json Cursor))"
    using inst [OF surjective_pairing, of ?empty_world Cursor] f4 by simp
  from f4 have f4': "files ?empty_world (getConfigPath broken_world Cursor) = Some Empty"
    unfolding p .
  from a b c d f2 f3 f4' show ?thesis by blast
qed

section \<open>Editing the registration\<close>


lemma upsert_frame:
  assumes "upsert (Doc v) (prop, key) x = Inr t'"
  shows "\<exists>v'. t' = Doc v' \<and>
     (\<forall>k. k \<noteq> prop \<longrightarrow> js_get (Some v') k = js_get (Some v) k) \<and>
     (\<forall>s. s \<noteq> key \<longrightarrow> js_get (js_get (Some v') prop) s = js_get (js_get (Some v) prop) s)"
proof (cases v)
  case (JObj kvs)
  show ?thesis
  proof (cases "map_of kvs prop")
    case None
    with assms JObj have "t' = Doc (JObj (kvs @ [(prop, JObj [(key, x)])]))"
      by auto
    with None JObj show ?thesis
      by (auto simp add: js_get_def map_add_def split: option.splits)
  next
    case (Some u)
    with assms JObj obtain inner where u: "u = JObj inner"
      and t': "t' = Doc (JObj (AList.update prop (JObj (AList.update key x inner)) kvs))"
      by (cases u) auto
    with Some JObj show ?thesis
      by (simp add: js_get_def AList.update_conv')
  qed
qed (use assms in simp_all)

lemma remove_edit_frame:
  assumes "remove_edit (Doc v) (prop, key) = Inr t'"
  shows "\<exists>v'. t' = Doc v' \<and>
     (\<forall>k. k \<noteq> prop \<longrightarrow> js_get (Some v') k = js_get (Some v) k) \<and>
     (\<forall>s. s \<noteq> key \<longrightarrow> js_get (js_get (Some v') prop) s = js_get (js_get (Some v) prop) s)"
proof (cases v)
  case (JObj kvs)
  show ?thesis
  proof (cases "map_of kvs prop")
    case None
    with assms JObj show ?thesis by auto
  next
    case (Some u)
    show ?thesis
    proof (cases u)
      case (JObj inner)
      with assms Some \<open>v = JObj kvs\<close>
      have "t' = Doc (JObj (AList.update prop (JObj (AList.delete key inner)) kvs))"
        by auto
      with Some JObj \<open>v = JObj kvs\<close> show ?thesis
        by (simp add: js_get_def AList.update_conv' AList.delete_conv')
    qed (use assms Some \<open>v = JObj kvs\<close> in auto)
  qed
qed (use assms in auto)

lemma modify_applyEdits_frame:
  assumes "modify_applyEdits (Doc v) (prop, key) val = Inr t'"
  shows "\<exists>v'. t' = Doc v' \<and>
     (\<forall>k. k \<noteq> prop \<longrightarrow> js_get (Some v') k = js_get (Some v) k) \<and>
     (\<forall>s. s \<noteq> key \<longrightarrow> js_get (js_get (Some v') prop) s = js_get (js_get (Some v) prop) s)"
proof (cases val)
  case None
  with assms have "remove_edit (Doc v) (prop, key) = Inr t'"
    by (simp add: modify_applyEdits_def)
  then show ?thesis by (rule remove_edit_frame)
next
  case (Some x)
  with assms have "upsert (Doc v) (prop, key) x = Inr t'"
    by (simp add: modify_applyEdits_def)
  then show ?thesis by (rule upsert_frame)
qed

lemma mkdir_p_world:
  "mkdir_p w d = Inr w1 \<Longrightarrow>
   files w1 = files w \<and> fs_fault w1 = fs_fault w \<and> platform w1 = platform w \<and>
   env w1 = env w \<and> homedir w1 = homedir w \<and> dirs w \<subseteq> dirs w1"
  by (auto simp add: mkdir_p_def split: option.splits)

lemma writeFile_world:
  "writeFile w p t = Inr w2 \<Longrightarrow> w2 = w\<lparr>files := (files w)(p \<mapsto> t)\<rparr>"
  by (auto simp add: writeFile_def split: option.splits)

lemma addServer_json_success:
  assumes run: "addServer_json w c apiKey = (r, w')" and good: "success r"
  shows "\<exists>content cfg modified.
        (\<forall>t. files w (getConfigPath w c) = Some t \<longrightarrow> content = t) \<and>
        modify_applyEdits content (getServerPropertyName c, MCP_SERVER_NAME) (Some cfg) =
          Inr modified \<and>
        files w' = (files w)(getConfigPath w c \<mapsto> modified) \<and>
        fs_fault w' = fs_fault w \<and> platform w' = platform w \<and> env w' = env w \<and>
        homedir w' = homedir w"
proof -
  let ?p = "getConfigPath w c"
  let ?path = "(getServerPropertyName c, MCP_SERVER_NAME)"
  from run good obtain w1 where mk: "mkdir_p w (path_dirname ?p) = Inr w1"
    by (cases "mkdir_p w (path_dirname ?p)") (auto simp add: addServer_json_def Let_def failure_def)
  note w1 = mkdir_p_world [OF mk]
  let ?read = "if existsSync w1 ?p then readFile w1 ?p else Inr Empty"
  from run good mk obtain content where rd: "?read = Inr content"
    by (cases ?read) (auto simp add: addServer_json_def Let_def failure_def)
  from run good mk rd obtain modified where
    md: "modify_applyEdits content ?path (Some (getServerConfig w1 c apiKey)) = Inr modified"
    by (cases "modify_applyEdits content ?path (Some (getServerConfig w1 c apiKey))")
       (auto simp add: addServer_json_def Let_def failure_def)
  from run good mk rd md obtain w2 where wr: "writeFile w1 ?p modified = Inr w2" and "w' = w2"
    by (cases "writeFile w1 ?p modified") (auto simp add: addServer_json_def Let_def failure_def)
  with writeFile_world [OF wr] have w': "w' = w1\<lparr>files := (files w1)(?p \<mapsto> modified)\<rparr>"
    by simp
  have "content = t" if "files w ?p = Some t" for t
  proof -
    from that w1 have "existsSync w1 ?p"
      by (auto simp add: existsSync_def)
    with rd that w1 show ?thesis
      by (auto simp add: readFile_def split: option.splits)
  qed
  with md w' w1 show ?thesis
    by (intro exI [of _ content] exI [of _ "getServerConfig w1 c apiKey"] exI [of _ modified])
       simp
qed

lemma addServer_json_failure:
  assumes "addServer_json w c apiKey = (r, w')" and "\<not> success r"
  shows "files w' = files w"
  using assms
  by (auto simp add: addServer_json_def Let_def mkdir_p_def writeFile_def
      ok_def split: option.splits sum.splits if_splits)

lemma removeServer_json_absent:
  "\<not> existsSync w (getConfigPath w c) \<Longrightarrow>
   removeServer_json w c = (failure ''Config not found'', w)"
  by (simp add: removeServer_json_def)

lemma removeServer_json_success:
  assumes run: "removeServer_json w c = (r, w')" and good: "success r"
  shows "\<exists>content modified.
        readFile w (getConfigPath w c) = Inr content \<and>
        modify_applyEdits content (getServerPropertyName c, MCP_SERVER_NAME) None =
          Inr modified \<and>
        w' = w\<lparr>files := (files w)(getConfigPath w c \<mapsto> modified)\<rparr>"
proof -
  let ?p = "getConfigPath w c"
  let ?path = "(getServerPropertyName c, MCP_SERVER_NAME)"
  from run good have ex: "existsSync w ?p"
    by (auto simp add: removeServer_json_def Let_def failure_def split: if_splits)
  from run good ex obtain content where rd: "readFile w ?p = Inr content"
    by (cases "readFile w ?p") (auto simp add: removeServer_json_def Let_def failure_def)
  from run good ex rd obtain modified where
    md: "modify_applyEdits content ?path None = Inr modified"
    by (cases "modify_applyEdits content ?path None")
       (auto simp add: removeServer_json_def Let_def failure_def)
  from run good ex rd md obtain w2 where wr: "writeFile w ?p modified = Inr w2" and "w' = w2"
    by (cases "writeFile w ?p modified") (auto simp add: removeServer_json_def Let_def failure_def)
  with writeFile_world [OF wr] rd md show ?thesis
    by simp
qed

lemma removeServer_json_failure:
  assumes "removeServer_json w c = (r, w')" and "\<not> success r"
  shows "w' = w \<and> error r \<noteq> None"
  using assms
  by (auto simp add: removeServer_json_def Let_def ok_def failure_def
      split: sum.splits if_splits)

lemma removeServer_json_progress:
  assumes "existsSync w (getConfigPath w c)"
    and "readFile w (getConfigPath w c) = Inr content"
    and "modify_applyEdits content (getServerPropertyName c, MCP_SERVER_NAME) None = Inr modified"
    and "fs_fault w WriteFile (getConfigPath w c) = None"
  shows "removeServer_json w c = (ok, w\<lparr>files := (files w)(getConfigPath w c \<mapsto> modified)\<rparr>)"
  using assms by (simp add: removeServer_json_def writeFile_def)

text \<open>
  C8. For a JSON-config adapter \<^verbatim>\<open>removeServer\<close> on an absent config file returns
  the failure "Config not found" and the state it was given. When the file exists and
  the call succeeds, the new state is the old one with the file overwritten by the text
  that the removal edit makes of its content; when the call fails, nothing is written;
  and the call does succeed when the file can be read, the edit can be computed and the
  file can be written.
\<close>

theorem removeServer_json_correct:
  "removeServer w (Json c) = (r, w') \<Longrightarrow>
   (\<not> existsSync w (getConfigPath w c) \<longrightarrow>
      r = \<lparr>success = False, error = Some ''Config not found''\<rparr> \<and> w' = w) \<and>
   (existsSync w (getConfigPath w c) \<and> success r \<longrightarrow>
      (\<exists>content modified.
          readFile w (getConfigPath w c) = Inr content \<and>
          modify_applyEdits content (getServerPropertyName c, MCP_SERVER_NAME) None =
            Inr modified \<and>
          w' = w\<lparr>files := (files w)(getConfigPath w c \<mapsto> modified)\<rparr>)) \<and>
   (\<not> success r \<longrightarrow> w' = w \<and> error r \<noteq> None) \<and>
   (\<forall>content modified.
      existsSync w (getConfigPath w c) \<and> readFile w (getConfigPath w c) = Inr content \<and>
      modify_applyEdits content (getServerPropertyName c, MCP_SERVER_NAME) None = Inr modified \<and>
      fs_fault w WriteFile (getConfigPath w c) = None \<longrightarrow> success r)"
proof -
  assume "removeServer w (Json c) = (r, w')"
  then have run: "removeServer_json w c = (r, w')"
    by simp
  have a: "r = \<lparr>success = False, error = Some ''Config not found''\<rparr> \<and> w' = w"
    if "\<not> existsSync w (getConfigPath w c)"
    using removeServer_json_absent [OF that] run by (simp add: failure_def)
  have b: "\<exists>content modified.
          readFile w (getConfigPath w c) = Inr content \<and>
          modify_applyEdits content (getServerPropertyName c, MCP_SERVER_NAME) None =
            Inr modified \<and>
          w' = w\<lparr>files := (files w)(getConfigPath w c \<mapsto> modified)\<rparr>"
    if "success r"
    using removeServer_json_success [OF run that] .
  have c: "w' = w \<and> error r \<noteq> None" if "\<not> success r"
    using removeServer_json_failure [OF run that] .
  have d: "success r"
    if "existsSync w (getConfigPath w c) \<and> readFile w (getConfigPath w c) = Inr content \<and>
      modify_applyEdits content (getServerPropertyName c, MCP_SERVER_NAME) None = Inr modified \<and>
      fs_fault w WriteFile (getConfigPath w c) = None" for content modified
    using removeServer_json_progress [of w c content modified] that run by (simp add: ok_def)
  from a b c d show ?thesis by blast
qed


theorem removeServer_json_correct_witness:
  "\<not> existsSync selfhost_world (getConfigPath selfhost_world VSCode) \<and>
   removeServer selfhost_world (Json VSCode) =
     (\<lparr>success = False, error = Some ''Config not found''\<rparr>, selfhost_world) \<and>
   existsSync selfhost_world (getConfigPath selfhost_world Cursor) \<and>
   success (fst (removeServer selfhost_world (Json Cursor))) \<and>
   files (snd (removeServer selfhost_world (Json Cursor))) ''/home/u/.config/cursor/mcp.json'' =
     Some (Doc (JObj [(''theme'', JStr ''dark''),
       (''mcpServers'', JObj [(''other'', JObj [(''command'', JStr ''node'')])])]))"
proof -
  note rm = removeServer_json_correct
  let ?old = "Doc (JObj [(''theme'', JStr ''dark''),
        (''mcpServers'', JObj [(''other'', JObj [(''command'', JStr ''node'')]),
                              (''codealive'', JObj [(''command'', JStr ''old'')])])])"
  let ?new = "Doc (JObj [(''theme'', JStr ''dark''),
       (''mcpServers'', JObj [(''other'', JObj [(''command'', JStr ''node'')])])])"
  have p: "getConfigPath selfhost_world Cursor = ''/home/u/.config/cursor/mcp.json''"
    by (simp add: selfhost_world_def path_join_def)
  have no: "\<not> existsSync selfhost_world (getConfigPath selfhost_world VSCode)"
    by code_simp
  have yes: "existsSync selfhost_world (getConfigPath selfhost_world Cursor)"
    by code_simp
  have rd: "readFile selfhost_world (getConfigPath selfhost_world Cursor) = Inr ?old"
    unfolding p by (simp add: readFile_def selfhost_world_def)
  have md: "modify_applyEdits ?old (getServerPropertyName Cursor, MCP_SERVER_NAME) None = Inr ?new"
    by (simp add: modify_applyEdits_def MCP_SERVER_NAME_def)
  have wr: "fs_fault selfhost_world WriteFile (getConfigPath selfhost_world Cursor) = None"
    by (simp add: selfhost_world_def)
  have a: "removeServer selfhost_world (Json VSCode) =
     (\<lparr>success = False, error = Some ''Config not found''\<rparr>, selfhost_world)"
    using rm [OF surjective_pairing, of selfhost_world VSCode] no
    by (simp add: prod_eq_iff)
  have b: "success (fst (removeServer selfhost_world (Json Cursor)))"
    using rm [OF surjective_pairing, of selfhost_world Cursor] yes rd md wr
    by blast
  have "snd (removeServer selfhost_world (Json Cursor)) =
      selfhost_world\<lparr>files := (files selfhost_world)(''/home/u/.config/cursor/mcp.json'' \<mapsto> ?new)\<rparr>"
    using rm [OF surjective_pairing, of selfhost_world Cursor] yes b rd md
    unfolding p by auto
  then have c: "files (snd (removeServer selfhost_world (Json Cursor)))
      ''/home/u/.config/cursor/mcp.json'' = Some ?new"
    by (simp del: removeServer.simps)
  from no a yes b c show ?thesis by blast
qed

lemma readFile_Some:
  "files w p = Some t \<Longrightarrow> readFile w p = Inr content \<Longrightarrow> content = t"
  by (auto simp add: readFile_def split: option.splits)

text \<open>
  C1. For a JSON-config adapter whose config file holds a well-formed text,
  \<^verbatim>\<open>addServer\<close> and \<^verbatim>\<open>removeServer\<close> leave a well-formed text in which every
  top-level key other than the adapter's property name, and every server entry other
  than "codealive" under that name, is bound as before; no other file changes.
\<close>

theorem edit_leaves_rest:
  assumes "files w (getConfigPath w c) = Some (Doc v)"
    and "addServer w (Json c) apiKey = (r, w') \<or> removeServer w (Json c) = (r, w')"
  shows "(\<exists>v'. files w' (getConfigPath w c) = Some (Doc v') \<and>
      (\<forall>k. k \<noteq> getServerPropertyName c \<longrightarrow> js_get (Some v') k = js_get (Some v) k) \<and>
      (\<forall>s. s \<noteq> MCP_SERVER_NAME \<longrightarrow>
         js_get (js_get (Some v') (getServerPropertyName c)) s =
         js_get (js_get (Some v) (getServerPropertyName c)) s)) \<and>
    (\<forall>q. q \<noteq> getConfigPath w c \<longrightarrow> files w' q = files w q)"
proof (cases "success r")
  case False
  from assms(2) have "files w' = files w"
  proof
    assume "addServer w (Json c) apiKey = (r, w')"
    then have "addServer_json w c apiKey = (r, w')" by simp
    from addServer_json_failure [OF this False] show ?thesis .
  next
    assume "removeServer w (Json c) = (r, w')"
    then have "removeServer_json w c = (r, w')" by simp
    from removeServer_json_failure [OF this False] show ?thesis by simp
  qed
  with assms(1) show ?thesis by simp
next
  case True
  let ?p = "getConfigPath w c"
  let ?path = "(getServerPropertyName c, MCP_SERVER_NAME)"
  have "\<exists>val modified. modify_applyEdits (Doc v) ?path val = Inr modified \<and>
      files w' = (files w)(?p \<mapsto> modified)"
    using assms(2)
  proof
    assume "addServer w (Json c) apiKey = (r, w')"
    then have "addServer_json w c apiKey = (r, w')" by simp
    from addServer_json_success [OF this True] obtain content cfg modified where
      c: "\<forall>t. files w ?p = Some t \<longrightarrow> content = t"
      and md: "modify_applyEdits content ?path (Some cfg) = Inr modified"
      and fs: "files w' = (files w)(?p \<mapsto> modified)"
      by blast
    from c assms(1) have "content = Doc v" by simp
    with md fs show ?thesis by blast
  next
    assume "removeServer w (Json c) = (r, w')"
    then have "removeServer_json w c = (r, w')" by simp
    from removeServer_json_success [OF this True] obtain content modified where
      rd: "readFile w ?p = Inr content"
      and md: "modify_applyEdits content ?path None = Inr modified"
      and w': "w' = w\<lparr>files := (files w)(?p \<mapsto> modified)\<rparr>"
      by blast
    from readFile_Some [OF assms(1) rd] have "content = Doc v" .
    moreover from w' have "files w' = (files w)(?p \<mapsto> modified)" by simp
    ultimately show ?thesis using md by blast
  qed
  then obtain val modified where md: "modify_applyEdits (Doc v) ?path val = Inr modified"
    and fs: "files w' = (files w)(?p \<mapsto> modified)"
    by blast
  from modify_applyEdits_frame [OF md] obtain v' where v': "modified = Doc v'"
    and top: "\<forall>k. k \<noteq> getServerPropertyName c \<longrightarrow> js_get (Some v') k = js_get (Some v) k"
    and sib: "\<forall>s. s \<noteq> MCP_SERVER_NAME \<longrightarrow>
         js_get (js_get (Some v') (getServerPropertyName c)) s =
         js_get (js_get (Some v) (getServerPropertyName c)) s"
    by blast
  from fs v' have here: "files w' ?p = Some (Doc v')" by simp
  from fs have others: "\<forall>q. q \<noteq> ?p \<longrightarrow> files w' q = files w q" by simp
  from here top sib others show ?thesis by blast
qed

theorem edit_leaves_rest_witness:
  "files selfhost_world (getConfigPath selfhost_world Cursor) =
     Some (Doc (JObj [(''theme'', JStr ''dark''),
        (''mcpServers'', JObj [(''other'', JObj [(''command'', JStr ''node'')]),
                              (''codealive'', JObj [(''command'', JStr ''old'')])])])) \<and>
   (\<exists>v'. files (snd (addServer selfhost_world (Json Cursor) ''key''))
       ''/home/u/.config/cursor/mcp.json'' = Some (Doc v') \<and>
      js_get (Some v') ''theme'' = Some (JStr ''dark'') \<and>
      js_get (js_get (Some v') ''mcpServers'') ''other'' = Some (JObj [(''command'', JStr ''node'')])) \<and>
   (\<exists>v'. files (snd (removeServer selfhost_world (Json Cursor)))
       ''/home/u/.config/cursor/mcp.json'' = Some (Doc v') \<and>
      js_get (Some v') ''theme'' = Some (JStr ''dark'') \<and>
      js_get (js_get (Some v') ''mcpServers'') ''other'' = Some (JObj [(''command'', JStr ''node'')]))"
proof -
  note fr = edit_leaves_rest
  let ?old = "JObj [(''theme'', JStr ''dark''),
        (''mcpServers'', JObj [(''other'', JObj [(''command'', JStr ''node'')]),
                              (''codealive'', JObj [(''command'', JStr ''old'')])])]"
  have p: "getConfigPath selfhost_world Cursor = ''/home/u/.config/cursor/mcp.json''"
    by (simp add: selfhost_world_def path_join_def)
  have f: "files selfhost_world (getConfigPath selfhost_world Cursor) = Some (Doc ?old)"
    unfolding p by (simp add: selfhost_world_def)
  have old1: "js_get (Some ?old) ''theme'' = Some (JStr ''dark'')"
    and old2: "js_get (js_get (Some ?old) ''mcpServers'') ''other'' =
      Some (JObj [(''command'', JStr ''node'')])"
    by (simp_all add: js_get_def)
  have ne: "''theme'' \<noteq> getServerPropertyName Cursor" "''other'' \<noteq> MCP_SERVER_NAME"
    and pn: "getServerPropertyName Cursor = ''mcpServers''"
    by (simp_all add: MCP_SERVER_NAME_def)
  have a: "\<exists>v'. files (snd (addServer selfhost_world (Json Cursor) ''key''))
       ''/home/u/.config/cursor/mcp.json'' = Some (Doc v') \<and>
      js_get (Some v') ''theme'' = Some (JStr ''dark'') \<and>
      js_get (js_get (Some v') ''mcpServers'') ''other'' = Some (JObj [(''command'', JStr ''node'')])"
  proof -
    from fr [OF f disjI1 [OF surjective_pairing], of "''key''"] obtain v' where
      here: "files (snd (addServer selfhost_world (Json Cursor) ''key''))
          (getConfigPath selfhost_world Cursor) = Some (Doc v')"
      and top: "\<forall>k. k \<noteq> getServerPropertyName Cursor \<longrightarrow>
          js_get (Some v') k = js_get (Some ?old) k"
      and sib: "\<forall>s. s \<noteq> MCP_SERVER_NAME \<longrightarrow>
          js_get (js_get (Some v') (getServerPropertyName Cursor)) s =
          js_get (js_get (Some ?old) (getServerPropertyName Cursor)) s"
      by blast
    have t: "js_get (Some v') ''theme'' = Some (JStr ''dark'')"
      by (rule trans [OF top [rule_format, OF ne(1)] old1])
    have s: "js_get (js_get (Some v') ''mcpServers'') ''other'' =
        Some (JObj [(''command'', JStr ''node'')])"
      by (rule trans [OF sib [rule_format, OF ne(2), unfolded pn] old2])
    from here t s show ?thesis unfolding p by blast
  qed
  have b: "\<exists>v'. files (snd (removeServer selfhost_world (Json Cursor)))
       ''/home/u/.config/cursor/mcp.json'' = Some (Doc v') \<and>
      js_get (Some v') ''theme'' = Some (JStr ''dark'') \<and>
      js_get (js_get (Some v') ''mcpServers'') ''other'' = Some (JObj [(''command'', JStr ''node'')])"
  proof -
    from fr [OF f disjI2 [OF surjective_pairing]] obtain v' where
      here: "files (snd (removeServer selfhost_world (Json Cursor)))
          (getConfigPath selfhost_world Cursor) = Some (Doc v')"
      and top: "\<forall>k. k \<noteq> getServerPropertyName Cursor \<longrightarrow>
          js_get (Some v') k = js_get (Some ?old) k"
      and sib: "\<forall>s. s \<noteq> MCP_SERVER_NAME \<longrightarrow>
          js_get (js_get (Some v') (getServerPropertyName Cursor)) s =
          js_get (js_get (Some ?old) (getServerPropertyName Cursor)) s"
      by blast
    have t: "js_get (Some v') ''theme'' = Some (JStr ''dark'')"
      by (rule trans [OF top [rule_format, OF ne(1)] old1])
    have s: "js_get (js_get (Some v') ''mcpServers'') ''other'' =
        Some (JObj [(''command'', JStr ''node'')])"
      by (rule trans [OF sib [rule_format, OF ne(2), unfolded pn] old2])
    from here t s show ?thesis unfolding p by blast
  qed
  from f a b show ?thesis by blast
qed

section \<open>Adding, then asking\<close>















end
